theory Spec2Isabelle
  imports Main
begin

section \<open>Python strings\<close>

text \<open>
  A Python \<open>str\<close> is a sequence of code points. A \<^typ>\<open>char\<close> stands for one code
  point below 256, so \<^typ>\<open>string\<close> covers the strings over that range, one
  \<^typ>\<open>char\<close> per code point.

  \<open>str.isdigit\<close> holds of a non-empty string all of whose characters have the Unicode
  property Digit. Below 256 these are the ten decimal digits \<open>0\<close> to \<open>9\<close> (code
  points 48 to 57) and the superscripts two, three and one (code points 0xB2, 0xB3, 0xB9).
  \<open>int\<close> of a string reads decimal digits only (Unicode category Nd): below 256, code
  points 48 to 57.
\<close>

definition isdecimal_char :: "char \<Rightarrow> bool" where
  "isdecimal_char c = (c \<in> set ''0123456789'')"

definition isdigit_char :: "char \<Rightarrow> bool" where
  "isdigit_char c = (isdecimal_char c \<or> c \<in> set [CHR 0xB2, CHR 0xB3, CHR 0xB9])"

definition isdigit :: "string \<Rightarrow> bool" where
  "isdigit s = (s \<noteq> [] \<and> list_all isdigit_char s)"

definition digit_value :: "char \<Rightarrow> int" where
  "digit_value c = int (of_char c) - 48"

definition decimal_value :: "string \<Rightarrow> int" where
  "decimal_value s = foldl (\<lambda>acc c. 10 * acc + digit_value c) 0 s"

text \<open>\<open>s.split(sep)\<close> for a one-character separator: one part more than separators.\<close>

fun str_split :: "string \<Rightarrow> char \<Rightarrow> string list" where
  "str_split [] sep = [[]]"
| "str_split (c # cs) sep =
     (if c = sep then [] # str_split cs sep
      else (case str_split cs sep of
              [] \<Rightarrow> [[c]]
            | p # ps \<Rightarrow> (c # p) # ps))"

definition endswith :: "string \<Rightarrow> string \<Rightarrow> bool" where
  "endswith s suffix =
     (length suffix \<le> length s \<and> drop (length s - length suffix) s = suffix)"

section \<open>Errors\<close>

text \<open>
  Every exception the modelled code raises, or lets through from a builtin, is a value.
  \<open>YamlParseDictError\<close> keeps its four arguments: the path, the key, the data and the
  message. \<open>ValueError\<close> keeps the string that was refused.
\<close>

datatype error =
    YamlParseDictError string string "(string \<times> string) list" string
  | DbtInternalError string
  | ValueError string
  | CompilationError string
  | DbtException string
  | KeyError string

text \<open>
  \<open>int(s)\<close> on the strings the parser passes to it: those that satisfy \<open>isdigit\<close>, which
  hold no sign, blank or underscore. Such a string is read when all its characters are
  decimal digits and they are no more than \<open>sys.int_max_str_digits\<close>, by default 4300
  (leading zeros count); it is refused with a \<open>ValueError\<close> otherwise.
\<close>

definition int_max_str_digits :: nat where
  "int_max_str_digits = 4300"

definition py_int :: "string \<Rightarrow> error + int" where
  "py_int s =
     (if s \<noteq> [] \<and> list_all isdecimal_char s \<and> length s \<le> int_max_str_digits
      then Inr (decimal_value s)
      else Inl (ValueError s))"

section \<open>The time-window parser\<close>

text \<open>
  \<open>TimeGranularity\<close> is an enumeration of the library \<open>dbt_semantic_interfaces\<close>. A
  member is identified by its value, so \<open>TimeGranularity v\<close> is the member whose value
  is \<open>v\<close>; the list of the members' values is a parameter \<open>tg\<close> of the parser.  The
  member \<open>DAY\<close> is the one whose value is \<open>day\<close>.
\<close>

datatype TimeGranularity = TimeGranularity string

abbreviation DAY :: TimeGranularity where
  "DAY \<equiv> TimeGranularity ''day''"

record MetricTimeWindow =
  count :: int
  granularity :: TimeGranularity

definition strip_plural :: "string \<Rightarrow> string" where
  "strip_plural g = (if endswith g ''s'' then butlast g else g)"

definition get_time_window ::
  "string list \<Rightarrow> string \<Rightarrow> string option \<Rightarrow> error + MetricTimeWindow option" where
  "get_time_window tg path unparsed_window =
     (case unparsed_window of
        None \<Rightarrow> Inr None
      | Some w \<Rightarrow>
          (let parts = str_split w CHR '' '' in
           if length parts \<noteq> 2 then
             Inl (YamlParseDictError path ''window'' [(''window'', w)]
                   (''Invalid window ('' @ w @ '') in cumulative metric. Should be of the form ''
                    @ [CHR 0x60] @ ''<count> <granularity>'' @ [CHR 0x60]
                    @ '', e.g., '' @ [CHR 0x60] @ ''28 days'' @ [CHR 0x60]))
           else
             (let granularity = strip_plural (parts ! 1) in
              if granularity \<notin> set tg then
                Inl (YamlParseDictError path ''window'' [(''window'', w)]
                      (''Invalid time granularity '' @ granularity
                       @ '' in cumulative metric window string: ('' @ w @ '')''))
              else
                (let count = parts ! 0 in
                 if \<not> isdigit count then
                   Inl (YamlParseDictError path ''window'' [(''window'', w)]
                         (''Invalid count ('' @ count
                          @ '') in cumulative metric window string: ('' @ w @ '')''))
                 else
                   (case py_int count of
                      Inl e \<Rightarrow> Inl e
                    | Inr n \<Rightarrow>
                        Inr (Some \<lparr>count = n, granularity = TimeGranularity granularity\<rparr>))))))"

section \<open>Resource nodes\<close>

text \<open>
  The classes of \<open>dbt.contracts.graph\<close> that the parsers read and build. Fields that
  several classes share under one name carry a prefix here (\<open>ue_\<close> for
  \<open>UnparsedExposure\<close>, \<open>um_\<close> for \<open>UnparsedMetric\<close>, \<open>e_\<close> for \<open>Exposure\<close>, and
  so on); the fields every node has are those of \<open>BaseNode\<close>. A dictionary whose
  content the parsers only pass on is an association list, and a value they never
  look into is its printed form.
\<close>

datatype NodeType =
    NodeType_Exposure | NodeType_Metric | NodeType_Group | NodeType_SemanticModel
  | NodeType_SqlOperation

datatype WhereFilter = WhereFilter string

datatype MetricType = MetricType string

datatype 'a str_or = Str string | Obj 'a

text \<open>
  A config object: its class, the \<open>enabled\<close> flag, the \<open>group\<close> and the remaining
  settings. \<open>OtherConfig r\<close> is any class but the two named, \<open>r\<close> its printed form.
\<close>

datatype ConfigClass = ExposureConfig | MetricConfig | OtherConfig string

record Config =
  config_class :: ConfigClass
  enabled :: bool
  group :: "string option"
  settings :: "(string \<times> string) list"

fun class_repr :: "ConfigClass \<Rightarrow> string" where
  "class_repr ExposureConfig =
     ''<class '' @ [CHR 0x27] @ ''dbt.contracts.graph.model_config.ExposureConfig''
     @ [CHR 0x27] @ ''>''"
| "class_repr MetricConfig =
     ''<class '' @ [CHR 0x27] @ ''dbt.contracts.graph.model_config.MetricConfig''
     @ [CHR 0x27] @ ''>''"
| "class_repr (OtherConfig r) = r"

record UnparsedExposure =
  ue_name :: string
  ue_type :: string
  ue_url :: "string option"
  ue_meta :: "(string \<times> string) list"
  ue_tags :: "string list"
  ue_description :: string
  ue_label :: "string option"
  ue_owner :: string
  ue_maturity :: "string option"
  ue_depends_on :: "string list"
  ue_config :: "(string \<times> string) list"

record UnparsedMetricInputMeasure =
  uim_name :: string
  uim_filter :: "string option"
  uim_alias :: "string option"

record UnparsedMetricInput =
  umi_name :: string
  umi_filter :: "string option"
  umi_alias :: "string option"
  umi_offset_window :: "string option"
  umi_offset_to_grain :: "string option"

record UnparsedMetricTypeParams =
  utp_measure :: "UnparsedMetricInputMeasure str_or option"
  utp_measures :: "UnparsedMetricInputMeasure str_or list option"
  utp_numerator :: "UnparsedMetricInputMeasure str_or option"
  utp_denominator :: "UnparsedMetricInputMeasure str_or option"
  utp_expr :: "string option"
  utp_window :: "string option"
  utp_grain_to_date :: "string option"
  utp_metrics :: "UnparsedMetricInput str_or list option"

record UnparsedMetric =
  um_name :: string
  um_description :: string
  um_label :: string
  um_type :: string
  um_type_params :: UnparsedMetricTypeParams
  um_filter :: "string option"
  um_meta :: "(string \<times> string) list"
  um_tags :: "string list"
  um_config :: "(string \<times> string) list"

record UnparsedGroup =
  ug_name :: string
  ug_owner :: string

record UnparsedSemanticModel =
  us_name :: string
  us_description :: "string option"
  us_model :: string
  us_entities :: "string list"
  us_measures :: "string list"
  us_dimensions :: "string list"

record MetricInputMeasure =
  im_name :: string
  im_filter :: "WhereFilter option"
  im_alias :: "string option"

record MetricInput =
  mi_name :: string
  mi_filter :: "WhereFilter option"
  mi_alias :: "string option"
  mi_offset_window :: "MetricTimeWindow option"
  mi_offset_to_grain :: "TimeGranularity option"

record MetricTypeParams =
  tp_measure :: "MetricInputMeasure option"
  tp_measures :: "MetricInputMeasure list"
  tp_numerator :: "MetricInputMeasure option"
  tp_denominator :: "MetricInputMeasure option"
  tp_expr :: "string option"
  tp_window :: "MetricTimeWindow option"
  tp_grain_to_date :: "TimeGranularity option"
  tp_metrics :: "MetricInput list"

record BaseNode =
  resource_type :: NodeType
  package_name :: string
  path :: string
  original_file_path :: string
  unique_id :: string
  name :: string

record Exposure = BaseNode +
  e_fqn :: "string list"
  e_type :: string
  e_url :: "string option"
  e_meta :: "(string \<times> string) list"
  e_tags :: "string list"
  e_description :: string
  e_label :: "string option"
  e_owner :: string
  e_maturity :: "string option"
  e_config :: Config
  e_unrendered_config :: Config
  e_refs :: "string list"
  e_sources :: "string list"
  e_metrics :: "string list"

record Metric = BaseNode +
  m_fqn :: "string list"
  m_description :: string
  m_label :: string
  m_type :: MetricType
  m_type_params :: MetricTypeParams
  m_filter :: "WhereFilter option"
  m_meta :: "(string \<times> string) list"
  m_tags :: "string list"
  m_config :: Config
  m_unrendered_config :: Config
  m_group :: "string option"

record Group = BaseNode +
  g_owner :: string

record SemanticModel = BaseNode +
  s_description :: "string option"
  s_fqn :: "string list"
  s_model :: string
  s_node_relation :: "string option"
  s_entities :: "string list"
  s_measures :: "string list"
  s_dimensions :: "string list"

record ExecutableNode = BaseNode +
  is_ephemeral_model :: bool
  compiled_code :: "string option"

datatype GraphNode =
    ExposureNode Exposure
  | MetricNode Metric
  | GroupNode Group
  | SemanticModelNode SemanticModel
  | SqlNode ExecutableNode

fun node_unique_id :: "GraphNode \<Rightarrow> string" where
  "node_unique_id (ExposureNode n) = unique_id n"
| "node_unique_id (MetricNode n) = unique_id n"
| "node_unique_id (GroupNode n) = unique_id n"
| "node_unique_id (SemanticModelNode n) = unique_id n"
| "node_unique_id (SqlNode n) = unique_id n"

section \<open>The Manifest\<close>

text \<open>
  Modelled from the spec: the class \<open>Manifest\<close> and its methods \<open>add_exposure\<close>,
  \<open>add_metric\<close>, \<open>add_group\<close>, \<open>add_semantic_model\<close> and \<open>add_disabled\<close> are not among
  the source files. The spec gives the Manifest two partitions, the enabled nodes as a
  map from unique ids to nodes (the \<open>nodes\<close> that \<open>compile.py\<close> pops from) and the
  disabled nodes as a map from source files to lists of nodes; a node is added to the
  first under its unique id, to the second at the end of its file's list.
\<close>

record Manifest =
  nodes :: "string \<rightharpoonup> GraphNode"
  disabled :: "string \<rightharpoonup> GraphNode list"

definition add_enabled :: "Manifest \<Rightarrow> GraphNode \<Rightarrow> Manifest" where
  "add_enabled m n = m\<lparr>nodes := (nodes m)(node_unique_id n \<mapsto> n)\<rparr>"

definition add_exposure :: "Manifest \<Rightarrow> string \<Rightarrow> Exposure \<Rightarrow> Manifest" where
  "add_exposure m source_file exposure = add_enabled m (ExposureNode exposure)"

definition add_metric :: "Manifest \<Rightarrow> string \<Rightarrow> Metric \<Rightarrow> Manifest" where
  "add_metric m source_file metric = add_enabled m (MetricNode metric)"



definition add_disabled :: "Manifest \<Rightarrow> string \<Rightarrow> GraphNode \<Rightarrow> Manifest" where
  "add_disabled m source_file n =
     m\<lparr>disabled := (disabled m)(source_file \<mapsto>
          (case disabled m source_file of None \<Rightarrow> [] | Some ns \<Rightarrow> ns) @ [n])\<rparr>"

section \<open>The schema readers\<close>

text \<open>
  What a reader holds and the collaborators it calls, none of them among the source
  files, are the fields of \<open>YamlReader\<close>: the project's name, the paths and the file of
  the YAML block, the printed form of a \<open>NodeType\<close>, \<open>get_fqn_prefix\<close> of the schema
  parser, \<open>calculate_node_config\<close> of the two config generators,
  \<open>finalize_and_validate\<close> of a config, the dependencies that \<open>get_rendered\<close> captures
  for an exposure (its refs, sources and metrics), and the values of the enumerations
  \<open>TimeGranularity\<close> and \<open>MetricType\<close>. The collaborators are taken to return.
\<close>

datatype ConfigGenerator = ContextConfigGenerator | UnrenderedConfigGenerator

record YamlReader =
  project_name :: string
  yaml_path :: string
  relative_path :: string
  yaml_original_file_path :: string
  yaml_file :: string
  node_type_str :: "NodeType \<Rightarrow> string"
  get_fqn_prefix :: "string \<Rightarrow> string list"
  calculate_node_config ::
    "ConfigGenerator \<Rightarrow> (string \<times> string) list \<Rightarrow> string list \<Rightarrow> NodeType \<Rightarrow> string
       \<Rightarrow> bool \<Rightarrow> (string \<times> string) list \<Rightarrow> Config"
  finalize_and_validate :: "Config \<Rightarrow> Config"
  get_rendered :: "string \<Rightarrow> Exposure \<Rightarrow> string list \<times> string list \<times> string list"
  time_granularities :: "string list"
  metric_types :: "string list"

text \<open>
  The state a reader works on: the Manifest it registers nodes in, and the calls of
  \<open>calculate_node_config\<close> made so far, each with its generator and resource type, in
  the order they were made.
\<close>

record ParseState =
  manifest :: Manifest
  config_calls :: "(ConfigGenerator \<times> NodeType) list"

fun str_join :: "string \<Rightarrow> string list \<Rightarrow> string" where
  "str_join sep [] = []"
| "str_join sep [x] = x"
| "str_join sep (x # y # ys) = x @ sep @ str_join sep (y # ys)"

subsection \<open>ExposureParser\<close>

definition generate_exposure_config ::
  "YamlReader \<Rightarrow> ParseState \<Rightarrow> UnparsedExposure \<Rightarrow> string list \<Rightarrow> string \<Rightarrow> bool
     \<Rightarrow> Config \<times> ParseState" where
  "generate_exposure_config self st target fqn pkg rendered =
     (let generator = (if rendered then ContextConfigGenerator else UnrenderedConfigGenerator);
          precedence_configs = ue_config target
      in (calculate_node_config self generator [] fqn NodeType_Exposure pkg False
            precedence_configs,
          st\<lparr>config_calls := config_calls st @ [(generator, NodeType_Exposure)]\<rparr>))"

definition exposure_node ::
  "YamlReader \<Rightarrow> UnparsedExposure \<Rightarrow> Config \<Rightarrow> Config \<Rightarrow> Exposure" where
  "exposure_node self unparsed config unrendered_config =
     (let pkg = project_name self;
          parsed = \<lparr>resource_type = NodeType_Exposure,
                    package_name = pkg,
                    path = relative_path self,
                    original_file_path = yaml_original_file_path self,
                    unique_id = node_type_str self NodeType_Exposure @ ''.'' @ pkg @ ''.''
                                @ ue_name unparsed,
                    name = ue_name unparsed,
                    e_fqn = get_fqn_prefix self (relative_path self) @ [ue_name unparsed],
                    e_type = ue_type unparsed,
                    e_url = ue_url unparsed,
                    e_meta = ue_meta unparsed,
                    e_tags = ue_tags unparsed,
                    e_description = ue_description unparsed,
                    e_label = ue_label unparsed,
                    e_owner = ue_owner unparsed,
                    e_maturity = ue_maturity unparsed,
                    e_config = config,
                    e_unrendered_config = unrendered_config,
                    e_refs = [], e_sources = [], e_metrics = []\<rparr>;
          depends_on_jinja =
            str_join [CHR 0x0A] (map (\<lambda>line. ''{{ '' @ line @ ''}}'') (ue_depends_on unparsed))
      in (case get_rendered self depends_on_jinja parsed of
            (refs, sources, metrics) \<Rightarrow>
              parsed\<lparr>e_refs := refs, e_sources := sources, e_metrics := metrics\<rparr>))"

definition parse_exposure ::
  "YamlReader \<Rightarrow> ParseState \<Rightarrow> UnparsedExposure \<Rightarrow> error + ParseState" where
  "parse_exposure self st unparsed =
     (let pkg = project_name self;
          fqn = get_fqn_prefix self (relative_path self) @ [ue_name unparsed];
          (config0, st1) = generate_exposure_config self st unparsed fqn pkg True;
          config = finalize_and_validate self config0;
          (unrendered_config, st2) = generate_exposure_config self st1 unparsed fqn pkg False
      in if config_class config \<noteq> ExposureConfig then
           Inl (DbtInternalError (''Calculated a '' @ class_repr (config_class config)
                  @ '' for an exposure, but expected an ExposureConfig''))
         else
           (let parsed = exposure_node self unparsed config unrendered_config
            in if enabled (e_config parsed) then
                 Inr (st2\<lparr>manifest := add_exposure (manifest st2) (yaml_file self) parsed\<rparr>)
               else
                 Inr (st2\<lparr>manifest :=
                        add_disabled (manifest st2) (yaml_file self) (ExposureNode parsed)\<rparr>)))"

subsection \<open>MetricParser\<close>

fun get_input_measure :: "UnparsedMetricInputMeasure str_or \<Rightarrow> MetricInputMeasure" where
  "get_input_measure (Str s) = \<lparr>im_name = s, im_filter = None, im_alias = None\<rparr>"
| "get_input_measure (Obj u) =
     \<lparr>im_name = uim_name u,
      im_filter = (case uim_filter u of None \<Rightarrow> None | Some f \<Rightarrow> Some (WhereFilter f)),
      im_alias = uim_alias u\<rparr>"

definition get_optional_input_measure ::
  "UnparsedMetricInputMeasure str_or option \<Rightarrow> MetricInputMeasure option" where
  "get_optional_input_measure u =
     (case u of Some x \<Rightarrow> Some (get_input_measure x) | None \<Rightarrow> None)"

definition get_input_measures ::
  "UnparsedMetricInputMeasure str_or list option \<Rightarrow> MetricInputMeasure list" where
  "get_input_measures us = (case us of None \<Rightarrow> [] | Some xs \<Rightarrow> map get_input_measure xs)"

text \<open>\<open>TimeGranularity(v)\<close> and \<open>MetricType(v)\<close>: the member of that value, or a \<open>ValueError\<close>.\<close>

definition TimeGranularity_of :: "string list \<Rightarrow> string \<Rightarrow> error + TimeGranularity" where
  "TimeGranularity_of tg v = (if v \<in> set tg then Inr (TimeGranularity v) else Inl (ValueError v))"

definition MetricType_of :: "string list \<Rightarrow> string \<Rightarrow> error + MetricType" where
  "MetricType_of mt v = (if v \<in> set mt then Inr (MetricType v) else Inl (ValueError v))"

definition get_metric_input ::
  "string list \<Rightarrow> string \<Rightarrow> UnparsedMetricInput str_or \<Rightarrow> error + MetricInput" where
  "get_metric_input tg pth u =
     (case u of
        Str s \<Rightarrow> Inr \<lparr>mi_name = s, mi_filter = None, mi_alias = None,
                       mi_offset_window = None, mi_offset_to_grain = None\<rparr>
      | Obj x \<Rightarrow>
          (case (case umi_offset_to_grain x of
                   None \<Rightarrow> Inr None
                 | Some g \<Rightarrow> (case TimeGranularity_of tg g of
                                Inl e \<Rightarrow> Inl e | Inr v \<Rightarrow> Inr (Some v))) of
             Inl e \<Rightarrow> Inl e
           | Inr offset_to_grain \<Rightarrow>
               (case get_time_window tg pth (umi_offset_window x) of
                  Inl e \<Rightarrow> Inl e
                | Inr w \<Rightarrow>
                    Inr \<lparr>mi_name = umi_name x,
                         mi_filter = (case umi_filter x of
                                        None \<Rightarrow> None | Some f \<Rightarrow> Some (WhereFilter f)),
                         mi_alias = umi_alias x,
                         mi_offset_window = w,
                         mi_offset_to_grain = offset_to_grain\<rparr>)))"

fun get_metric_inputs_loop ::
  "string list \<Rightarrow> string \<Rightarrow> UnparsedMetricInput str_or list \<Rightarrow> MetricInput list
     \<Rightarrow> error + MetricInput list" where
  "get_metric_inputs_loop tg pth [] metric_inputs = Inr metric_inputs"
| "get_metric_inputs_loop tg pth (u # us) metric_inputs =
     (case get_metric_input tg pth u of
        Inl e \<Rightarrow> Inl e
      | Inr mi \<Rightarrow> get_metric_inputs_loop tg pth us (metric_inputs @ [mi]))"

definition get_metric_inputs ::
  "string list \<Rightarrow> string \<Rightarrow> UnparsedMetricInput str_or list option \<Rightarrow> error + MetricInput list"
  where
  "get_metric_inputs tg pth us =
     (case us of None \<Rightarrow> Inr [] | Some xs \<Rightarrow> get_metric_inputs_loop tg pth xs [])"

definition get_metric_type_params ::
  "YamlReader \<Rightarrow> UnparsedMetricTypeParams \<Rightarrow> error + MetricTypeParams" where
  "get_metric_type_params self type_params =
     (case (case utp_grain_to_date type_params of
              None \<Rightarrow> Inr None
            | Some g \<Rightarrow> (case TimeGranularity_of (time_granularities self) g of
                           Inl e \<Rightarrow> Inl e | Inr v \<Rightarrow> Inr (Some v))) of
        Inl e \<Rightarrow> Inl e
      | Inr grain_to_date \<Rightarrow>
          (case get_time_window (time_granularities self) (yaml_path self)
                  (utp_window type_params) of
             Inl e \<Rightarrow> Inl e
           | Inr window \<Rightarrow>
               (case get_metric_inputs (time_granularities self) (yaml_path self)
                       (utp_metrics type_params) of
                  Inl e \<Rightarrow> Inl e
                | Inr metrics \<Rightarrow>
                    Inr \<lparr>tp_measure = get_optional_input_measure (utp_measure type_params),
                         tp_measures = get_input_measures (utp_measures type_params),
                         tp_numerator = get_optional_input_measure (utp_numerator type_params),
                         tp_denominator =
                           get_optional_input_measure (utp_denominator type_params),
                         tp_expr = utp_expr type_params,
                         tp_window = window,
                         tp_grain_to_date = grain_to_date,
                         tp_metrics = metrics\<rparr>)))"

definition generate_metric_config ::
  "YamlReader \<Rightarrow> ParseState \<Rightarrow> UnparsedMetric \<Rightarrow> string list \<Rightarrow> string \<Rightarrow> bool
     \<Rightarrow> Config \<times> ParseState" where
  "generate_metric_config self st target fqn pkg rendered =
     (let generator = (if rendered then ContextConfigGenerator else UnrenderedConfigGenerator);
          precedence_configs = um_config target
      in (calculate_node_config self generator [] fqn NodeType_Metric pkg False
            precedence_configs,
          st\<lparr>config_calls := config_calls st @ [(generator, NodeType_Metric)]\<rparr>))"

definition metric_node ::
  "YamlReader \<Rightarrow> UnparsedMetric \<Rightarrow> Config \<Rightarrow> Config \<Rightarrow> MetricType \<Rightarrow> MetricTypeParams
     \<Rightarrow> Metric" where
  "metric_node self unparsed config unrendered_config mtype type_params =
     (let pkg = project_name self
      in \<lparr>resource_type = NodeType_Metric,
          package_name = pkg,
          path = relative_path self,
          original_file_path = yaml_original_file_path self,
          unique_id = node_type_str self NodeType_Metric @ ''.'' @ pkg @ ''.''
                      @ um_name unparsed,
          name = um_name unparsed,
          m_fqn = get_fqn_prefix self (relative_path self) @ [um_name unparsed],
          m_description = um_description unparsed,
          m_label = um_label unparsed,
          m_type = mtype,
          m_type_params = type_params,
          m_filter = (case um_filter unparsed of
                        None \<Rightarrow> None | Some f \<Rightarrow> Some (WhereFilter f)),
          m_meta = um_meta unparsed,
          m_tags = um_tags unparsed,
          m_config = config,
          m_unrendered_config = unrendered_config,
          m_group = group config\<rparr>)"

definition parse_metric ::
  "YamlReader \<Rightarrow> ParseState \<Rightarrow> UnparsedMetric \<Rightarrow> error + ParseState" where
  "parse_metric self st unparsed =
     (let pkg = project_name self;
          fqn = get_fqn_prefix self (relative_path self) @ [um_name unparsed];
          (config0, st1) = generate_metric_config self st unparsed fqn pkg True;
          config = finalize_and_validate self config0;
          (unrendered_config, st2) = generate_metric_config self st1 unparsed fqn pkg False
      in if config_class config \<noteq> MetricConfig then
           Inl (DbtInternalError (''Calculated a '' @ class_repr (config_class config)
                  @ '' for a metric, but expected a MetricConfig''))
         else
           (case MetricType_of (metric_types self) (um_type unparsed) of
              Inl e \<Rightarrow> Inl e
            | Inr mtype \<Rightarrow>
                (case get_metric_type_params self (um_type_params unparsed) of
                   Inl e \<Rightarrow> Inl e
                 | Inr type_params \<Rightarrow>
                     (let parsed =
                            metric_node self unparsed config unrendered_config mtype type_params
                      in if enabled (m_config parsed) then
                           Inr (st2\<lparr>manifest :=
                                  add_metric (manifest st2) (yaml_file self) parsed\<rparr>)
                         else
                           Inr (st2\<lparr>manifest :=
                                  add_disabled (manifest st2) (yaml_file self)
                                    (MetricNode parsed)\<rparr>)))))"

subsection \<open>GroupParser and SemanticModelParser\<close>



section \<open>The compile task\<close>

datatype RunStatus = RunStatus_Success | RunStatus_Error | RunStatus_Skipped

record RunResult =
  node :: ExecutableNode
  status :: RunStatus
  timing :: "string list"
  thread_id :: string
  execution_time :: int
  message :: "string option"
  adapter_response :: "(string \<times> string) list"
  failures :: "int option"

text \<open>\<open>CompileRunner.execute\<close>, with the name of the current thread as an argument.\<close>

definition execute :: "string \<Rightarrow> ExecutableNode \<Rightarrow> Manifest \<Rightarrow> RunResult" where
  "execute thread_name compiled_node m =
     \<lparr>node = compiled_node, status = RunStatus_Success, timing = [],
      thread_id = thread_name, execution_time = 0, message = None,
      adapter_response = [], failures = None\<rparr>"

text \<open>
  The arguments a task reads: \<open>select\<close>, a sequence of selectors or \<open>None\<close>, and
  \<open>inline\<close>, a query or \<open>None\<close> (also when the attribute is missing). Either counts as
  true when it is neither \<open>None\<close> nor empty.
\<close>

record Args =
  select :: "string list option"
  inline :: "string option"

definition truthy :: "'a list option \<Rightarrow> bool" where
  "truthy v = (case v of None \<Rightarrow> False | Some xs \<Rightarrow> xs \<noteq> [])"

text \<open>\<open>type(self)\<close>: \<open>CompileTask\<close> itself, or a subclass of it by name.\<close>

datatype TaskClass = CompileTask_class | Subclass string

record CompileTask =
  args :: Args
  task_manifest :: Manifest
  inline_node_id :: "string option"
  node_results :: "RunResult list"
  self_class :: TaskClass

text \<open>
  Modelled from the spec: the steps of the base class \<open>GraphRunnableTask\<close> around a
  task's own (the rest of initialisation and the rest of \<open>after_run\<close>) are not among
  the source files. They read the task and the Manifest and may fail, but add and
  remove no node: the spec has the Manifest changed only by the injection and the
  removal of the inline node. The other code a task calls that is not among the source
  files is taken as it comes: \<open>parse_remote\<close> of the \<open>SqlBlockParser\<close> and
  \<open>process_node\<close>, which work on the Manifest in place and so leave it as they made it
  also when they raise, and the handler of results of the base class, which may change
  the task.
\<close>

record TaskBase =
  parse_remote :: "Manifest \<Rightarrow> string \<Rightarrow> string \<Rightarrow> Manifest \<times> (error + ExecutableNode)"
  process_node :: "Manifest \<Rightarrow> ExecutableNode \<Rightarrow> Manifest \<times> error option"
  super_handle_result :: "CompileTask \<Rightarrow> RunResult \<Rightarrow> CompileTask"
  super_runtime_initialize :: "CompileTask \<Rightarrow> error option"
  super_after_run :: "CompileTask \<Rightarrow> RunResult list \<Rightarrow> error option"

text \<open>The handler \<open>except CompilationError\<close> of \<open>_runtime_initialize\<close>.\<close>

fun except_CompilationError :: "error \<Rightarrow> error" where
  "except_CompilationError (CompilationError msg) = DbtException ''Error parsing inline query''"
| "except_CompilationError e = e"

text \<open>
  \<open>_runtime_initialize\<close> returns the task as it leaves it and the error it raised, if
  any: the Manifest is changed in place, so what \<open>parse_remote\<close> and \<open>process_node\<close>
  did to it stays when the initialisation fails. The id of the inline node is recorded
  after both have returned.
\<close>

definition runtime_initialize :: "TaskBase \<Rightarrow> CompileTask \<Rightarrow> CompileTask \<times> error option" where
  "runtime_initialize base self =
     (if truthy (inline (args self)) then
        (case inline (args self) of
           None \<Rightarrow> (self, super_runtime_initialize base self)
         | Some sql \<Rightarrow>
             (case parse_remote base (task_manifest self) sql ''inline_query'' of
                (m1, Inl e) \<Rightarrow> (self\<lparr>task_manifest := m1\<rparr>, Some (except_CompilationError e))
              | (m1, Inr sql_node) \<Rightarrow>
                  (case process_node base m1 sql_node of
                     (m2, Some e) \<Rightarrow>
                       (self\<lparr>task_manifest := m2\<rparr>, Some (except_CompilationError e))
                   | (m2, None) \<Rightarrow>
                       (let self1 = self\<lparr>task_manifest := m2,
                                         inline_node_id := Some (unique_id sql_node)\<rparr>
                        in (self1, super_runtime_initialize base self1)))))
      else (self, super_runtime_initialize base self))"

text \<open>
  \<open>after_run\<close> returns the task and the error it raised, if any. \<open>dict.pop\<close> of a key
  that is not there raises a \<open>KeyError\<close>.
\<close>

definition after_run ::
  "TaskBase \<Rightarrow> CompileTask \<Rightarrow> RunResult list \<Rightarrow> CompileTask \<times> error option" where
  "after_run base self results =
     (if truthy (inline_node_id self) then
        (case inline_node_id self of
           None \<Rightarrow> (self, super_after_run base self results)
         | Some i \<Rightarrow>
             (case nodes (task_manifest self) i of
                None \<Rightarrow> (self, Some (KeyError i))
              | Some n \<Rightarrow>
                  (let self1 =
                         self\<lparr>task_manifest :=
                                (task_manifest self)\<lparr>nodes := (nodes (task_manifest self))(i := None)\<rparr>,
                              inline_node_id := None\<rparr>
                   in (self1, super_after_run base self1 results))))
      else (self, super_after_run base self results))"

definition handle_result :: "TaskBase \<Rightarrow> CompileTask \<Rightarrow> RunResult \<Rightarrow> CompileTask" where
  "handle_result base self result =
     (let self1 = super_handle_result base self result
      in if is_ephemeral_model (node result) \<and> self_class self1 = CompileTask_class
            \<and> (truthy (select (args self1)) \<or> truthy (inline (args self1)))
         then self1\<lparr>node_results := node_results self1 @ [result]\<rparr>
         else self1)"

section \<open>The Common-Identifiers rule\<close>

text \<open>
  Modelled from the spec: the classes \<open>Identifier\<close>, \<open>Entity\<close> and
  \<open>UserConfiguredModel\<close> and those of \<open>validator_helpers\<close> are not among the source
  files. An identifier is declared on an entity under a name (the spec's identifier
  \<open>ref:foo\<close>), and its \<open>reference\<close> is the \<open>IdentifierReference\<close> of that name; an
  entity has a name and its identifiers, a model its entities, either list possibly
  \<open>None\<close>. A warning holds its context, the entity's and the element's name, and a
  message. The wrapper \<open>validate_safely\<close> turns an exception of the wrapped function
  into an issue; the two functions below raise none.
\<close>

datatype IdentifierReference = IdentifierReference string

fun reference_name :: "IdentifierReference \<Rightarrow> string" where
  "reference_name (IdentifierReference n) = n"

record Identifier =
  ident_name :: string

definition reference :: "Identifier \<Rightarrow> IdentifierReference" where
  "reference i = IdentifierReference (ident_name i)"

record Entity =
  entity_name :: string
  identifiers :: "Identifier list option"

record UserConfiguredModel =
  entities :: "Entity list option"

datatype EntityElementReference = EntityElementReference string string

datatype EntityElementType = MEASURE | DIMENSION | IDENTIFIER

datatype EntityElementContext = EntityElementContext EntityElementReference EntityElementType

datatype ValidationIssue =
    ValidationWarning EntityElementContext string
  | ValidationError EntityElementContext string

text \<open>\<open>xs or []\<close>.\<close>

definition or_empty :: "'a list option \<Rightarrow> 'a list" where
  "or_empty xs = (case xs of None \<Rightarrow> [] | Some ys \<Rightarrow> ys)"

definition add_entity_identifier ::
  "(IdentifierReference \<rightharpoonup> string set) \<Rightarrow> Entity \<Rightarrow> Identifier
     \<Rightarrow> (IdentifierReference \<rightharpoonup> string set)" where
  "add_entity_identifier d entity identifier =
     (case d (reference identifier) of
        Some s \<Rightarrow> d(reference identifier \<mapsto> insert (entity_name entity) s)
      | None \<Rightarrow> d(reference identifier \<mapsto> {entity_name entity}))"

definition map_entity_identifiers ::
  "Entity list option \<Rightarrow> (IdentifierReference \<rightharpoonup> string set)" where
  "map_entity_identifiers ents =
     foldl (\<lambda>d entity. foldl (\<lambda>d' identifier. add_entity_identifier d' entity identifier)
                          d (or_empty (identifiers entity)))
           Map.empty (or_empty ents)"

definition check_identifier ::
  "Identifier \<Rightarrow> Entity \<Rightarrow> (IdentifierReference \<rightharpoonup> string set) \<Rightarrow> ValidationIssue list" where
  "check_identifier identifier entity identifiers_to_entities =
     (case identifiers_to_entities (reference identifier) of
        None \<Rightarrow> []
      | Some s \<Rightarrow>
          if s - {entity_name entity} = {} then
            [ValidationWarning
               (EntityElementContext
                  (EntityElementReference (entity_name entity) (ident_name identifier))
                  IDENTIFIER)
               (''Identifier '' @ [CHR 0x60] @ reference_name (reference identifier)
                @ [CHR 0x60] @ '' only found in one entity '' @ [CHR 0x60]
                @ entity_name entity @ [CHR 0x60]
                @ '' which means it will be unused in joins.'')]
          else [])"

definition validate_model :: "UserConfiguredModel \<Rightarrow> ValidationIssue list" where
  "validate_model model =
     (let identifiers_to_entities = map_entity_identifiers (entities model)
      in foldl (\<lambda>issues entity.
                  foldl (\<lambda>issues' identifier.
                           issues' @ check_identifier identifier entity identifiers_to_entities)
                        issues (or_empty (identifiers entity)))
               [] (or_empty (entities model)))"

text \<open>The entity and the element an issue's context names.\<close>

fun issue_entity :: "ValidationIssue \<Rightarrow> string" where
  "issue_entity (ValidationWarning (EntityElementContext (EntityElementReference e n) t) msg) = e"
| "issue_entity (ValidationError (EntityElementContext (EntityElementReference e n) t) msg) = e"

fun issue_element :: "ValidationIssue \<Rightarrow> string" where
  "issue_element (ValidationWarning (EntityElementContext (EntityElementReference e n) t) msg) = n"
| "issue_element (ValidationError (EntityElementContext (EntityElementReference e n) t) msg) = n"

section \<open>What the parsers resolve and register\<close>

text \<open>
  The rendered config of a declaration, as \<open>parse_exposure\<close> and \<open>parse_metric\<close> compute
  it (the config of the \<open>ContextConfigGenerator\<close>, finalised and validated), and the
  unrendered one (the config of the \<open>UnrenderedConfigGenerator\<close>).
\<close>

definition rendered_exposure_config :: "YamlReader \<Rightarrow> UnparsedExposure \<Rightarrow> Config" where
  "rendered_exposure_config self u =
     finalize_and_validate self
       (calculate_node_config self ContextConfigGenerator []
          (get_fqn_prefix self (relative_path self) @ [ue_name u]) NodeType_Exposure
          (project_name self) False (ue_config u))"

definition unrendered_exposure_config :: "YamlReader \<Rightarrow> UnparsedExposure \<Rightarrow> Config" where
  "unrendered_exposure_config self u =
     calculate_node_config self UnrenderedConfigGenerator []
       (get_fqn_prefix self (relative_path self) @ [ue_name u]) NodeType_Exposure
       (project_name self) False (ue_config u)"

definition rendered_metric_config :: "YamlReader \<Rightarrow> UnparsedMetric \<Rightarrow> Config" where
  "rendered_metric_config self u =
     finalize_and_validate self
       (calculate_node_config self ContextConfigGenerator []
          (get_fqn_prefix self (relative_path self) @ [um_name u]) NodeType_Metric
          (project_name self) False (um_config u))"

definition unrendered_metric_config :: "YamlReader \<Rightarrow> UnparsedMetric \<Rightarrow> Config" where
  "unrendered_metric_config self u =
     calculate_node_config self UnrenderedConfigGenerator []
       (get_fqn_prefix self (relative_path self) @ [um_name u]) NodeType_Metric
       (project_name self) False (um_config u)"

text \<open>
  A node has gone to the enabled partition alone when the map of nodes holds it under
  its unique id and is otherwise as before, with the disabled partition untouched; to
  the disabled partition alone when it ends the list of its source file, with the map
  of nodes untouched.
\<close>

definition added_enabled_only :: "Manifest \<Rightarrow> Manifest \<Rightarrow> GraphNode \<Rightarrow> bool" where
  "added_enabled_only m m' n =
     (nodes m' = (nodes m)(node_unique_id n \<mapsto> n) \<and> disabled m' = disabled m)"

definition added_disabled_only :: "Manifest \<Rightarrow> Manifest \<Rightarrow> string \<Rightarrow> GraphNode \<Rightarrow> bool" where
  "added_disabled_only m m' source_file n =
     (disabled m' = (disabled m)(source_file \<mapsto> or_empty (disabled m source_file) @ [n])
      \<and> nodes m' = nodes m)"

section \<open>Example inputs\<close>

definition example_granularities :: "string list" where
  "example_granularities = [''day'', ''week'', ''month'', ''quarter'', ''year'']"

definition example_config :: "NodeType \<Rightarrow> (string \<times> string) list \<Rightarrow> Config" where
  "example_config rt patch =
     \<lparr>config_class = (if rt = NodeType_Exposure then ExposureConfig else MetricConfig),
      enabled = (map_of patch ''enabled'' \<noteq> Some ''false''),
      group = map_of patch ''group'',
      settings = patch\<rparr>"

definition example_reader :: YamlReader where
  "example_reader =
     \<lparr>project_name = ''proj'',
      yaml_path = ''models/schema.yml'',
      relative_path = ''schema.yml'',
      yaml_original_file_path = ''models/schema.yml'',
      yaml_file = ''proj://models/schema.yml'',
      node_type_str = (\<lambda>t. case t of
          NodeType_Exposure \<Rightarrow> ''exposure'' | NodeType_Metric \<Rightarrow> ''metric''
        | NodeType_Group \<Rightarrow> ''group'' | NodeType_SemanticModel \<Rightarrow> ''semantic_model''
        | NodeType_SqlOperation \<Rightarrow> ''sql_operation''),
      get_fqn_prefix = (\<lambda>p. [''proj'']),
      calculate_node_config = (\<lambda>gen call_dict fqn rt pkg base patch. example_config rt patch),
      finalize_and_validate = (\<lambda>c. c),
      get_rendered = (\<lambda>jinja parsed. ([], [], [])),
      time_granularities = example_granularities,
      metric_types = [''simple'', ''ratio'', ''cumulative'', ''derived'']\<rparr>"

text \<open>A reader whose config generators answer with a config of the class \<open>NodeConfig\<close>.\<close>

definition mistyped_reader :: YamlReader where
  "mistyped_reader =
     example_reader\<lparr>calculate_node_config :=
       (\<lambda>gen call_dict fqn rt pkg base patch.
          (example_config rt patch)\<lparr>config_class := OtherConfig ''NodeConfig''\<rparr>)\<rparr>"

definition empty_manifest :: Manifest where
  "empty_manifest = \<lparr>nodes = Map.empty, disabled = Map.empty\<rparr>"

definition empty_state :: ParseState where
  "empty_state = \<lparr>manifest = empty_manifest, config_calls = []\<rparr>"

definition example_exposure :: UnparsedExposure where
  "example_exposure =
     \<lparr>ue_name = ''weekly'', ue_type = ''dashboard'', ue_url = None, ue_meta = [],
      ue_tags = [], ue_description = [], ue_label = None, ue_owner = ''data team'',
      ue_maturity = None, ue_depends_on = [''ref(orders)''], ue_config = []\<rparr>"

definition example_type_params :: UnparsedMetricTypeParams where
  "example_type_params =
     \<lparr>utp_measure = None, utp_measures = None, utp_numerator = Some (Str ''revenue''),
      utp_denominator = Some (Str ''orders''), utp_expr = None, utp_window = Some ''7 days'',
      utp_grain_to_date = None, utp_metrics = None\<rparr>"

definition example_metric :: UnparsedMetric where
  "example_metric =
     \<lparr>um_name = ''ratio_metric'', um_description = [], um_label = ''Ratio'',
      um_type = ''ratio'', um_type_params = example_type_params, um_filter = None,
      um_meta = [], um_tags = [], um_config = [(''enabled'', ''false'')]\<rparr>"

definition example_group :: UnparsedGroup where
  "example_group = \<lparr>ug_name = ''finance'', ug_owner = ''finance team''\<rparr>"

definition example_semantic_model :: UnparsedSemanticModel where
  "example_semantic_model =
     \<lparr>us_name = ''orders'', us_description = None, us_model = ''ref(orders)'',
      us_entities = [], us_measures = [], us_dimensions = []\<rparr>"

text \<open>The names of the entities of a list that declare an identifier of a given reference.\<close>

definition declaring :: "Entity list \<Rightarrow> IdentifierReference \<Rightarrow> string set" where
  "declaring es r =
     entity_name ` {e \<in> set es. r \<in> reference ` set (or_empty (identifiers e))}"

definition orders_node :: ExecutableNode where
  "orders_node =
     \<lparr>resource_type = NodeType_SqlOperation, package_name = ''proj'',
      path = ''models/orders.sql'', original_file_path = ''models/orders.sql'',
      unique_id = ''model.proj.orders'', name = ''orders'',
      is_ephemeral_model = True, compiled_code = None\<rparr>"

definition inline_node :: ExecutableNode where
  "inline_node =
     \<lparr>resource_type = NodeType_SqlOperation, package_name = ''proj'',
      path = ''sql/inline_query'', original_file_path = ''from remote system.sql'',
      unique_id = ''sqloperation.proj.inline_query'', name = ''inline_query'',
      is_ephemeral_model = False, compiled_code = None\<rparr>"

definition orders_result :: RunResult where
  "orders_result = execute ''Thread-1'' orders_node empty_manifest"

text \<open>
  A base whose \<open>parse_remote\<close> adds the inline node to the Manifest, whose
  \<open>process_node\<close> leaves the Manifest as it is, and whose handler keeps the results of
  the nodes that are not ephemeral; and one whose \<open>process_node\<close> raises a
  \<open>CompilationError\<close>, as for a query that refers to a model that is not there.
\<close>

definition example_base :: TaskBase where
  "example_base =
     \<lparr>parse_remote = (\<lambda>m sql nm. (add_enabled m (SqlNode inline_node), Inr inline_node)),
      process_node = (\<lambda>m n. (m, None)),
      super_handle_result =
        (\<lambda>t r. if is_ephemeral_model (node r) then t
                else t\<lparr>node_results := node_results t @ [r]\<rparr>),
      super_runtime_initialize = (\<lambda>t. None),
      super_after_run = (\<lambda>t results. None)\<rparr>"

definition failing_base :: TaskBase where
  "failing_base =
     example_base\<lparr>process_node :=
       (\<lambda>m n. (m, Some (CompilationError ''Node not found'')))\<rparr>"

definition orders_manifest :: Manifest where
  "orders_manifest = add_enabled empty_manifest (SqlNode orders_node)"

definition inline_task :: CompileTask where
  "inline_task =
     \<lparr>args = \<lparr>select = None, inline = Some ''select 1''\<rparr>,
      task_manifest = orders_manifest, inline_node_id = None, node_results = [],
      self_class = CompileTask_class\<rparr>"

definition select_task :: CompileTask where
  "select_task =
     \<lparr>args = \<lparr>select = Some [''orders''], inline = None\<rparr>,
      task_manifest = orders_manifest, inline_node_id = None, node_results = [],
      self_class = CompileTask_class\<rparr>"

definition plain_task :: CompileTask where
  "plain_task =
     \<lparr>args = \<lparr>select = None, inline = None\<rparr>,
      task_manifest = orders_manifest, inline_node_id = None, node_results = [],
      self_class = CompileTask_class\<rparr>"

definition entity_A :: Entity where
  "entity_A = \<lparr>entity_name = ''A'',
                identifiers = Some [\<lparr>ident_name = ''foo''\<rparr>, \<lparr>ident_name = ''user''\<rparr>]\<rparr>"

definition entity_B :: Entity where
  "entity_B = \<lparr>entity_name = ''B'', identifiers = Some [\<lparr>ident_name = ''user''\<rparr>]\<rparr>"

definition example_model :: UserConfiguredModel where
  "example_model = \<lparr>entities = Some [entity_A, entity_B]\<rparr>"

text \<open>A model of one entity that declares the identifier \<open>foo\<close> twice.\<close>

definition twice_model :: UserConfiguredModel where
  "twice_model =
     \<lparr>entities = Some [\<lparr>entity_name = ''A'',
                         identifiers = Some [\<lparr>ident_name = ''foo''\<rparr>,
                                             \<lparr>ident_name = ''foo''\<rparr>]\<rparr>]\<rparr>"

section \<open>Properties of the time-window parser\<close>

lemma str_split_no_sep: "sep \<notin> set s \<Longrightarrow> str_split s sep = [s]"
  by (induction s) auto

lemma str_split_append:
  "sep \<notin> set a \<Longrightarrow> str_split (a @ sep # b) sep = a # str_split b sep"
  by (induction a) auto

lemma str_split_two:
  "sep \<notin> set a \<Longrightarrow> sep \<notin> set b \<Longrightarrow> str_split (a @ sep # b) sep = [a, b]"
  by (simp add: str_split_append str_split_no_sep)

lemma decimal_no_space: "set cnt \<subseteq> set ''0123456789'' \<Longrightarrow> CHR '' '' \<notin> set cnt"
proof
  assume a: "set cnt \<subseteq> set ''0123456789''" and b: "CHR '' '' \<in> set cnt"
  from a b have "CHR '' '' \<in> set ''0123456789''" by (rule subsetD)
  then show False by simp
qed

lemma decimal_isdigit: "cnt \<noteq> [] \<Longrightarrow> set cnt \<subseteq> set ''0123456789'' \<Longrightarrow> isdigit cnt"
  unfolding isdigit_def isdigit_char_def isdecimal_char_def list_all_iff
  by (intro conjI ballI disjI1) (assumption, erule (1) subsetD)

lemma decimal_list_all: "set cnt \<subseteq> set ''0123456789'' \<Longrightarrow> list_all isdecimal_char cnt"
  unfolding isdecimal_char_def list_all_iff by (intro ballI) (erule (1) subsetD)

lemma decimal_py_int:
  assumes "cnt \<noteq> []" and "set cnt \<subseteq> set ''0123456789''"
    and "length cnt \<le> int_max_str_digits"
  shows "py_int cnt = Inr (decimal_value cnt)"
  using assms(1,3) decimal_list_all [OF assms(2)] by (simp add: py_int_def)


text \<open>The value of a string of decimal digits, digit by digit.\<close>

lemma decimal_value_snoc:
  "decimal_value [] = 0 \<and> decimal_value (s @ [c]) = 10 * decimal_value s + digit_value c"
  by (simp add: decimal_value_def)

lemmas time_window_defs =
  get_time_window_def strip_plural_def endswith_def isdigit_def isdigit_char_def
  isdecimal_char_def py_int_def decimal_value_def digit_value_def int_max_str_digits_def

lemma get_time_window_decimal:
  assumes "cnt \<noteq> []" and "set cnt \<subseteq> set ''0123456789''"
    and "CHR '' '' \<notin> set gran"
    and "strip_plural gran \<in> set tg"
    and "length cnt \<le> int_max_str_digits"
  shows "get_time_window tg pth (Some (cnt @ '' '' @ gran)) =
           Inr (Some \<lparr>count = decimal_value cnt,
                       granularity = TimeGranularity (strip_plural gran)\<rparr>)"
proof -
  have sp: "str_split (cnt @ CHR '' '' # gran) CHR '' '' = [cnt, gran]"
    by (rule str_split_two [OF decimal_no_space [OF assms(2)] assms(3)])
  show ?thesis
    unfolding get_time_window_def
    using assms(4) decimal_isdigit [OF assms(1,2)] decimal_py_int [OF assms(1,2,5)]
    by (simp add: sp Let_def)
qed


lemma get_time_window_seven_days:
  assumes "''day'' \<in> set tg"
  shows "get_time_window tg pth (Some ''7 days'') = Inr (Some \<lparr>count = 7, granularity = DAY\<rparr>)"
proof -
  have "get_time_window tg pth (Some (''7'' @ '' '' @ ''days'')) =
          Inr (Some \<lparr>count = decimal_value ''7'',
                      granularity = TimeGranularity (strip_plural ''days'')\<rparr>)"
    by (rule get_time_window_decimal)
       (use assms in \<open>simp_all add: strip_plural_def endswith_def int_max_str_digits_def\<close>)
  then show ?thesis
    by (simp add: strip_plural_def endswith_def decimal_value_def digit_value_def)
qed




text \<open>
  Claim C3, at the window made of the superscript two, a blank and \<open>days\<close>. The count,
  the superscript two, is not composed of decimal digits, yet \<open>isdigit\<close> holds of it, so
  no \<open>YamlParseDictError\<close> is raised for it and \<open>int\<close> refuses it with a \<open>ValueError\<close>.
\<close>

theorem get_time_window_superscript_count:
  "get_time_window example_granularities ''models/schema.yml'' (Some (CHR 0xB2 # '' days''))
     = Inl (ValueError [CHR 0xB2])"
  by (simp add: time_window_defs example_granularities_def)

text \<open>
  Claim C8, as the claim states it, fails at the empty string: the parser tests its
  argument against \<open>None\<close> only, and the empty string splits into one part.
\<close>

theorem get_time_window_empty_string:
  "get_time_window example_granularities ''models/schema.yml'' (Some []) \<noteq> Inr None"
  by (simp add: get_time_window_def)

text \<open>
  Claim C8, amended. For the window \<open>None\<close> the parser returns \<open>None\<close> and raises
  nothing. The empty string is not an absent window: it fails with the
  \<open>YamlParseDictError\<close> of an invalid window.
\<close>

theorem get_time_window_absent:
  "get_time_window tg pth None = Inr None \<and>
   get_time_window tg pth (Some []) =
     Inl (YamlParseDictError pth ''window'' [(''window'', [])]
           (''Invalid window () in cumulative metric. Should be of the form ''
            @ [CHR 0x60] @ ''<count> <granularity>'' @ [CHR 0x60]
            @ '', e.g., '' @ [CHR 0x60] @ ''28 days'' @ [CHR 0x60]))"
  by (simp add: get_time_window_def)

lemma get_time_window_unknown_granularity:
  assumes "CHR '' '' \<notin> set cnt" and "CHR '' '' \<notin> set gran"
    and "strip_plural gran \<notin> set tg"
  shows "get_time_window tg pth (Some (cnt @ '' '' @ gran)) =
           Inl (YamlParseDictError pth ''window'' [(''window'', cnt @ '' '' @ gran)]
                 (''Invalid time granularity '' @ strip_plural gran
                  @ '' in cumulative metric window string: ('' @ cnt @ '' '' @ gran @ '')''))"
proof -
  have sp: "str_split (cnt @ CHR '' '' # gran) CHR '' '' = [cnt, gran]"
    by (rule str_split_two [OF assms(1) assms(2)])
  show ?thesis
    unfolding get_time_window_def using assms(3) by (simp add: sp Let_def)
qed

text \<open>
  Claim C10. For a window of two tokens whose count is not composed of decimal digits
  and whose granularity, a trailing \<open>s\<close> stripped, is no value of the enumeration, the
  parser raises the error of the invalid granularity, not that of the invalid count:
  it tests the granularity first. So it does for \<open>"seven dayz"\<close>, where the enumeration
  has no member of the value \<open>dayz\<close>.
\<close>

theorem get_time_window_granularity_first:
  "(CHR '' '' \<notin> set cnt \<and> CHR '' '' \<notin> set gran
      \<and> \<not> (cnt \<noteq> [] \<and> set cnt \<subseteq> set ''0123456789'')
      \<and> strip_plural gran \<notin> set tg \<longrightarrow>
      get_time_window tg pth (Some (cnt @ '' '' @ gran)) =
        Inl (YamlParseDictError pth ''window'' [(''window'', cnt @ '' '' @ gran)]
              (''Invalid time granularity '' @ strip_plural gran
               @ '' in cumulative metric window string: ('' @ cnt @ '' '' @ gran @ '')'')))
   \<and> (''dayz'' \<notin> set tg \<longrightarrow>
      get_time_window tg pth (Some ''seven dayz'') =
        Inl (YamlParseDictError pth ''window'' [(''window'', ''seven dayz'')]
              ''Invalid time granularity dayz in cumulative metric window string: (seven dayz)''))"
proof (intro conjI impI)
  assume "CHR '' '' \<notin> set cnt \<and> CHR '' '' \<notin> set gran
      \<and> \<not> (cnt \<noteq> [] \<and> set cnt \<subseteq> set ''0123456789'')
      \<and> strip_plural gran \<notin> set tg"
  then show "get_time_window tg pth (Some (cnt @ '' '' @ gran)) =
        Inl (YamlParseDictError pth ''window'' [(''window'', cnt @ '' '' @ gran)]
              (''Invalid time granularity '' @ strip_plural gran
               @ '' in cumulative metric window string: ('' @ cnt @ '' '' @ gran @ '')''))"
    using get_time_window_unknown_granularity [of cnt gran tg pth] by blast
next
  assume "''dayz'' \<notin> set tg"
  then show "get_time_window tg pth (Some ''seven dayz'') =
        Inl (YamlParseDictError pth ''window'' [(''window'', ''seven dayz'')]
              ''Invalid time granularity dayz in cumulative metric window string: (seven dayz)'')"
    using get_time_window_unknown_granularity [of "''seven''" "''dayz''" tg pth]
    by (simp add: strip_plural_def endswith_def)
qed

theorem get_time_window_granularity_first_witness:
  "CHR '' '' \<notin> set ''seven'' \<and> CHR '' '' \<notin> set ''dayz''
   \<and> (set ''seven'' \<subseteq> set ''0123456789'') = False
   \<and> strip_plural ''dayz'' \<notin> set example_granularities
   \<and> get_time_window example_granularities ''models/schema.yml'' (Some ''seven dayz'') =
       Inl (YamlParseDictError ''models/schema.yml'' ''window'' [(''window'', ''seven dayz'')]
             ''Invalid time granularity dayz in cumulative metric window string: (seven dayz)'')"
  using get_time_window_granularity_first
    [of "''seven''" "''dayz''" example_granularities "''models/schema.yml''"]
  by (simp add: strip_plural_def endswith_def example_granularities_def)

lemma get_time_window_invalid_count:
  assumes "CHR '' '' \<notin> set cnt" and "CHR '' '' \<notin> set gran"
    and "strip_plural gran \<in> set tg" and "\<not> isdigit cnt"
  shows "get_time_window tg pth (Some (cnt @ '' '' @ gran)) =
           Inl (YamlParseDictError pth ''window'' [(''window'', cnt @ '' '' @ gran)]
                 (''Invalid count ('' @ cnt
                  @ '') in cumulative metric window string: ('' @ cnt @ '' '' @ gran @ '')''))"
proof -
  have sp: "str_split (cnt @ CHR '' '' # gran) CHR '' '' = [cnt, gran]"
    by (rule str_split_two [OF assms(1) assms(2)])
  show ?thesis
    unfolding get_time_window_def using assms(3,4) by (simp add: sp Let_def)
qed

text \<open>
  Malformed windows that the parser refuses with a \<open>YamlParseDictError\<close>: a window that
  does not split into two parts at its blanks is an invalid window; a window of two
  tokens whose granularity, a trailing \<open>s\<close> stripped, is no value of the enumeration has
  an invalid granularity; and one whose granularity is a value and of whose count
  \<open>isdigit\<close> does not hold has an invalid count.
\<close>

theorem get_time_window_malformed:
  "(length (str_split w CHR '' '') \<noteq> 2 \<longrightarrow>
      get_time_window tg pth (Some w) =
        Inl (YamlParseDictError pth ''window'' [(''window'', w)]
              (''Invalid window ('' @ w @ '') in cumulative metric. Should be of the form ''
               @ [CHR 0x60] @ ''<count> <granularity>'' @ [CHR 0x60]
               @ '', e.g., '' @ [CHR 0x60] @ ''28 days'' @ [CHR 0x60])))
   \<and> (CHR '' '' \<notin> set cnt \<and> CHR '' '' \<notin> set gran \<and> strip_plural gran \<notin> set tg \<longrightarrow>
      get_time_window tg pth (Some (cnt @ '' '' @ gran)) =
        Inl (YamlParseDictError pth ''window'' [(''window'', cnt @ '' '' @ gran)]
              (''Invalid time granularity '' @ strip_plural gran
               @ '' in cumulative metric window string: ('' @ cnt @ '' '' @ gran @ '')'')))
   \<and> (CHR '' '' \<notin> set cnt \<and> CHR '' '' \<notin> set gran \<and> strip_plural gran \<in> set tg
        \<and> \<not> isdigit cnt \<longrightarrow>
      get_time_window tg pth (Some (cnt @ '' '' @ gran)) =
        Inl (YamlParseDictError pth ''window'' [(''window'', cnt @ '' '' @ gran)]
              (''Invalid count ('' @ cnt
               @ '') in cumulative metric window string: ('' @ cnt @ '' '' @ gran @ '')'')))"
proof (intro conjI impI)
  assume "length (str_split w CHR '' '') \<noteq> 2"
  then show "get_time_window tg pth (Some w) =
        Inl (YamlParseDictError pth ''window'' [(''window'', w)]
              (''Invalid window ('' @ w @ '') in cumulative metric. Should be of the form ''
               @ [CHR 0x60] @ ''<count> <granularity>'' @ [CHR 0x60]
               @ '', e.g., '' @ [CHR 0x60] @ ''28 days'' @ [CHR 0x60]))"
    by (simp add: get_time_window_def Let_def)
next
  assume "CHR '' '' \<notin> set cnt \<and> CHR '' '' \<notin> set gran \<and> strip_plural gran \<notin> set tg"
  then show "get_time_window tg pth (Some (cnt @ '' '' @ gran)) =
        Inl (YamlParseDictError pth ''window'' [(''window'', cnt @ '' '' @ gran)]
              (''Invalid time granularity '' @ strip_plural gran
               @ '' in cumulative metric window string: ('' @ cnt @ '' '' @ gran @ '')''))"
    using get_time_window_unknown_granularity [of cnt gran tg pth] by blast
next
  assume "CHR '' '' \<notin> set cnt \<and> CHR '' '' \<notin> set gran \<and> strip_plural gran \<in> set tg
        \<and> \<not> isdigit cnt"
  then show "get_time_window tg pth (Some (cnt @ '' '' @ gran)) =
        Inl (YamlParseDictError pth ''window'' [(''window'', cnt @ '' '' @ gran)]
              (''Invalid count ('' @ cnt
               @ '') in cumulative metric window string: ('' @ cnt @ '' '' @ gran @ '')''))"
    using get_time_window_invalid_count [of cnt gran tg pth] by blast
qed

theorem get_time_window_malformed_witness:
  "get_time_window example_granularities ''models/schema.yml'' (Some ''7  days'') =
     Inl (YamlParseDictError ''models/schema.yml'' ''window'' [(''window'', ''7  days'')]
           (''Invalid window (7  days) in cumulative metric. Should be of the form ''
            @ [CHR 0x60] @ ''<count> <granularity>'' @ [CHR 0x60]
            @ '', e.g., '' @ [CHR 0x60] @ ''28 days'' @ [CHR 0x60]))
   \<and> get_time_window example_granularities ''models/schema.yml'' (Some ''7 dayz'') =
     Inl (YamlParseDictError ''models/schema.yml'' ''window'' [(''window'', ''7 dayz'')]
           ''Invalid time granularity dayz in cumulative metric window string: (7 dayz)'')
   \<and> get_time_window example_granularities ''models/schema.yml'' (Some ''seven days'') =
     Inl (YamlParseDictError ''models/schema.yml'' ''window'' [(''window'', ''seven days'')]
           ''Invalid count (seven) in cumulative metric window string: (seven days)'')"
proof (intro conjI)
  show "get_time_window example_granularities ''models/schema.yml'' (Some ''7  days'') =
     Inl (YamlParseDictError ''models/schema.yml'' ''window'' [(''window'', ''7  days'')]
           (''Invalid window (7  days) in cumulative metric. Should be of the form ''
            @ [CHR 0x60] @ ''<count> <granularity>'' @ [CHR 0x60]
            @ '', e.g., '' @ [CHR 0x60] @ ''28 days'' @ [CHR 0x60]))"
    using get_time_window_malformed
      [of "''7  days''" example_granularities "''models/schema.yml''", THEN conjunct1]
    by simp
  show "get_time_window example_granularities ''models/schema.yml'' (Some ''7 dayz'') =
     Inl (YamlParseDictError ''models/schema.yml'' ''window'' [(''window'', ''7 dayz'')]
           ''Invalid time granularity dayz in cumulative metric window string: (7 dayz)'')"
    using get_time_window_malformed
      [where cnt = "''7''" and gran = "''dayz''" and tg = example_granularities
         and pth = "''models/schema.yml''", THEN conjunct2, THEN conjunct1]
    by (simp add: strip_plural_def endswith_def example_granularities_def)
  show "get_time_window example_granularities ''models/schema.yml'' (Some ''seven days'') =
     Inl (YamlParseDictError ''models/schema.yml'' ''window'' [(''window'', ''seven days'')]
           ''Invalid count (seven) in cumulative metric window string: (seven days)'')"
    using get_time_window_malformed
      [where cnt = "''seven''" and gran = "''days''" and tg = example_granularities
         and pth = "''models/schema.yml''", THEN conjunct2, THEN conjunct2]
    by (simp add: strip_plural_def endswith_def example_granularities_def isdigit_def
        isdigit_char_def isdecimal_char_def)
qed

lemma str_split_nonempty [simp]: "str_split s sep \<noteq> []"
  by (induction s) (auto split: list.splits)

lemma str_split_one_part:
  "str_split w sep = [b] \<Longrightarrow> w = b \<and> sep \<notin> set w"
proof (induction w arbitrary: b)
  case Nil
  then show ?case by simp
next
  case (Cons c cs)
  then show ?case by (auto split: if_splits list.splits)
qed

lemma str_split_two_parts:
  "str_split w sep = [a, b] \<Longrightarrow> w = a @ sep # b \<and> sep \<notin> set a \<and> sep \<notin> set b"
proof (induction w arbitrary: a)
  case Nil
  then show ?case by simp
next
  case (Cons c cs)
  show ?case
  proof (cases "c = sep")
    case True
    with Cons.prems have a: "a = []" and r: "str_split cs sep = [b]" by simp_all
    from str_split_one_part [OF r] True a show ?thesis by auto
  next
    case False
    with Cons.prems obtain p where p: "str_split cs sep = [p, b]" and a: "a = c # p"
      by (auto split: list.splits)
    from Cons.IH [OF p] False a show ?thesis by simp
  qed
qed

text \<open>
  The parser returns no partial result: whatever it returns for a window that is not
  \<open>None\<close> is the window of a count of at most 4300 decimal digits and of a granularity
  of the enumeration, both read from the two tokens of the string.
\<close>

theorem get_time_window_result_complete:
  assumes "get_time_window tg pth (Some w) = Inr r"
  shows "\<exists>cnt gran. w = cnt @ '' '' @ gran \<and> CHR '' '' \<notin> set cnt \<and> CHR '' '' \<notin> set gran
           \<and> cnt \<noteq> [] \<and> set cnt \<subseteq> set ''0123456789'' \<and> length cnt \<le> 4300
           \<and> strip_plural gran \<in> set tg
           \<and> r = Some \<lparr>count = decimal_value cnt,
                         granularity = TimeGranularity (strip_plural gran)\<rparr>"
proof -
  from assms have len: "length (str_split w CHR '' '') = 2"
    by (auto simp: get_time_window_def Let_def split: if_splits)
  then obtain cnt gran where sp: "str_split w CHR '' '' = [cnt, gran]"
    by (auto simp: length_Suc_conv numeral_2_eq_2)
  from str_split_two_parts [OF sp]
  have w: "w = cnt @ '' '' @ gran" and nc: "CHR '' '' \<notin> set cnt" and ng: "CHR '' '' \<notin> set gran"
    by simp_all
  from assms sp have g: "strip_plural gran \<in> set tg" and d: "isdigit cnt"
    and pi: "py_int cnt \<noteq> Inl (ValueError cnt)"
    by (auto simp: get_time_window_def Let_def py_int_def split: if_splits sum.splits)
  from pi have dec: "cnt \<noteq> [] \<and> list_all isdecimal_char cnt"
    and len4300: "length cnt \<le> 4300"
    by (auto simp: py_int_def int_max_str_digits_def split: if_splits)
  then have sub: "set cnt \<subseteq> set ''0123456789''"
    unfolding list_all_iff isdecimal_char_def by blast
  from assms sp g d dec len4300 have "r = Some \<lparr>count = decimal_value cnt,
                         granularity = TimeGranularity (strip_plural gran)\<rparr>"
    by (auto simp: get_time_window_def Let_def py_int_def int_max_str_digits_def
        split: if_splits)
  with w nc ng dec sub g len4300 show ?thesis by blast
qed

theorem get_time_window_result_complete_witness:
  "\<exists>cnt gran. ''7 days'' = cnt @ '' '' @ gran \<and> cnt \<noteq> []
       \<and> set cnt \<subseteq> set ''0123456789'' \<and> strip_plural gran \<in> set example_granularities
       \<and> Some \<lparr>count = 7, granularity = DAY\<rparr> =
           Some \<lparr>count = decimal_value cnt, granularity = TimeGranularity (strip_plural gran)\<rparr>"
proof -
  have "get_time_window example_granularities ''models/schema.yml'' (Some ''7 days'') =
          Inr (Some \<lparr>count = 7, granularity = DAY\<rparr>)"
    by (rule get_time_window_seven_days) (simp add: example_granularities_def)
  from get_time_window_result_complete [OF this] show ?thesis by blast
qed

section \<open>Properties of the schema readers\<close>

text \<open>What \<open>parse_exposure\<close> and \<open>parse_metric\<close> return, branch by branch.\<close>

lemma parse_exposure_cases:
  "parse_exposure self st u =
     (let config = rendered_exposure_config self u;
          n = exposure_node self u config (unrendered_exposure_config self u);
          st2 = st\<lparr>config_calls := config_calls st
                  @ [(ContextConfigGenerator, NodeType_Exposure),
                     (UnrenderedConfigGenerator, NodeType_Exposure)]\<rparr>
      in if config_class config \<noteq> ExposureConfig then
           Inl (DbtInternalError (''Calculated a '' @ class_repr (config_class config)
                  @ '' for an exposure, but expected an ExposureConfig''))
         else if enabled config then
           Inr (st2\<lparr>manifest := add_exposure (manifest st) (yaml_file self) n\<rparr>)
         else
           Inr (st2\<lparr>manifest := add_disabled (manifest st) (yaml_file self) (ExposureNode n)\<rparr>))"
  by (simp add: parse_exposure_def generate_exposure_config_def Let_def
      rendered_exposure_config_def unrendered_exposure_config_def exposure_node_def
      split: prod.splits)

lemma exposure_node_config [simp]: "e_config (exposure_node self u c uc) = c"
  by (simp add: exposure_node_def Let_def split: prod.splits)

lemma exposure_node_unrendered [simp]: "e_unrendered_config (exposure_node self u c uc) = uc"
  by (simp add: exposure_node_def Let_def split: prod.splits)

lemma exposure_node_name [simp]: "name (exposure_node self u c uc) = ue_name u"
  by (simp add: exposure_node_def Let_def split: prod.splits)

lemma add_exposure_only:
  "added_enabled_only m (add_exposure m f n) (ExposureNode n)"
  by (simp add: added_enabled_only_def add_exposure_def add_enabled_def)

lemma add_disabled_only:
  "added_disabled_only m (add_disabled m f n) f n"
  by (simp add: added_disabled_only_def add_disabled_def or_empty_def)

lemma parse_metric_cases:
  "parse_metric self st u =
     (let config = rendered_metric_config self u;
          st2 = st\<lparr>config_calls := config_calls st
                  @ [(ContextConfigGenerator, NodeType_Metric),
                     (UnrenderedConfigGenerator, NodeType_Metric)]\<rparr>
      in if config_class config \<noteq> MetricConfig then
           Inl (DbtInternalError (''Calculated a '' @ class_repr (config_class config)
                  @ '' for a metric, but expected a MetricConfig''))
         else
           (case MetricType_of (metric_types self) (um_type u) of
              Inl e \<Rightarrow> Inl e
            | Inr mtype \<Rightarrow>
                (case get_metric_type_params self (um_type_params u) of
                   Inl e \<Rightarrow> Inl e
                 | Inr tp \<Rightarrow>
                     (let n = metric_node self u config (unrendered_metric_config self u) mtype tp
                      in if enabled config then
                           Inr (st2\<lparr>manifest := add_metric (manifest st) (yaml_file self) n\<rparr>)
                         else
                           Inr (st2\<lparr>manifest :=
                                  add_disabled (manifest st) (yaml_file self) (MetricNode n)\<rparr>)))))"
  by (simp add: parse_metric_def generate_metric_config_def Let_def
      rendered_metric_config_def unrendered_metric_config_def metric_node_def
      split: prod.splits sum.splits)

lemma metric_node_fields [simp]:
  "m_config (metric_node self u c uc mt tp) = c"
  "m_unrendered_config (metric_node self u c uc mt tp) = uc"
  "name (metric_node self u c uc mt tp) = um_name u"
  "unique_id (metric_node self u c uc mt tp) =
     node_type_str self NodeType_Metric @ ''.'' @ project_name self @ ''.'' @ um_name u"
  by (simp_all add: metric_node_def Let_def)

lemma exposure_node_unique_id [simp]:
  "unique_id (exposure_node self u c uc) =
     node_type_str self NodeType_Exposure @ ''.'' @ project_name self @ ''.'' @ ue_name u"
  by (simp add: exposure_node_def Let_def split: prod.splits)

lemma add_metric_only:
  "added_enabled_only m (add_metric m f n) (MetricNode n)"
  by (simp add: added_enabled_only_def add_metric_def add_enabled_def)

lemmas example_defs =
  example_reader_def example_config_def example_exposure_def example_metric_def
  example_type_params_def example_granularities_def empty_state_def empty_manifest_def
  example_group_def example_semantic_model_def

lemma example_exposure_enabled:
  "config_class (rendered_exposure_config example_reader example_exposure) = ExposureConfig \<and>
   enabled (rendered_exposure_config example_reader example_exposure)"
  by (simp add: rendered_exposure_config_def example_defs)

lemma example_metric_disabled:
  "config_class (rendered_metric_config example_reader example_metric) = MetricConfig \<and>
   \<not> enabled (rendered_metric_config example_reader example_metric)"
  by (simp add: rendered_metric_config_def example_defs)

lemma example_window:
  "get_time_window example_granularities ''models/schema.yml'' (Some ''7 days'') =
     Inr (Some \<lparr>count = 7, granularity = DAY\<rparr>)"
  by (simp add: get_time_window_def strip_plural_def endswith_def isdigit_def isdigit_char_def
      isdecimal_char_def py_int_def decimal_value_def digit_value_def int_max_str_digits_def
      example_granularities_def)

lemma example_type_params_ok:
  "\<exists>tp. get_metric_type_params example_reader example_type_params = Inr tp"
  using example_window
  by (simp add: get_metric_type_params_def get_metric_inputs_def example_reader_def
      example_type_params_def)

lemma example_exposure_parses:
  "\<exists>st'. parse_exposure example_reader empty_state example_exposure = Inr st'"
  using example_exposure_enabled by (simp add: parse_exposure_cases Let_def)

lemma example_metric_parses:
  "\<exists>st'. parse_metric example_reader empty_state example_metric = Inr st'"
proof -
  obtain tp where tp: "get_metric_type_params example_reader example_type_params = Inr tp"
    using example_type_params_ok by blast
  have mt: "MetricType_of (metric_types example_reader) (um_type example_metric) = Inr (MetricType ''ratio'')"
    by (simp add: MetricType_of_def example_reader_def example_metric_def)
  have tpe: "um_type_params example_metric = example_type_params"
    by (simp add: example_metric_def)
  show ?thesis
    using example_metric_disabled tp mt tpe by (simp add: parse_metric_cases Let_def)
qed

text \<open>
  Claim C1. A parsed exposure or metric declaration yields a node of the declaration's
  unique id that carries the rendered config. Where that config is enabled, the node
  is added to the enabled partition under its unique id and the disabled partition is
  as before; otherwise the node is added to the disabled partition under the source
  file of the reader and the enabled partition is as before. So no node goes to both.
\<close>

theorem registration_by_enabled_flag:
  "(parse_exposure self st ue = Inr st_e \<longrightarrow>
      (\<exists>n. unique_id n = node_type_str self NodeType_Exposure @ ''.'' @ project_name self
                          @ ''.'' @ ue_name ue
         \<and> e_config n = rendered_exposure_config self ue
         \<and> (if enabled (rendered_exposure_config self ue)
            then added_enabled_only (manifest st) (manifest st_e) (ExposureNode n)
            else added_disabled_only (manifest st) (manifest st_e) (yaml_file self)
                   (ExposureNode n))))
   \<and> (parse_metric self st um = Inr st_m \<longrightarrow>
      (\<exists>n. unique_id n = node_type_str self NodeType_Metric @ ''.'' @ project_name self
                          @ ''.'' @ um_name um
         \<and> m_config n = rendered_metric_config self um
         \<and> (if enabled (rendered_metric_config self um)
            then added_enabled_only (manifest st) (manifest st_m) (MetricNode n)
            else added_disabled_only (manifest st) (manifest st_m) (yaml_file self)
                   (MetricNode n))))"
proof (intro conjI impI)
  assume ok: "parse_exposure self st ue = Inr st_e"
  let ?c = "rendered_exposure_config self ue"
  let ?n = "exposure_node self ue ?c (unrendered_exposure_config self ue)"
  have "if enabled ?c
        then added_enabled_only (manifest st) (manifest st_e) (ExposureNode ?n)
        else added_disabled_only (manifest st) (manifest st_e) (yaml_file self)
               (ExposureNode ?n)"
    using ok add_exposure_only [of "manifest st" "yaml_file self" ?n]
      add_disabled_only [of "manifest st" "yaml_file self" "ExposureNode ?n"]
    by (auto simp: parse_exposure_cases Let_def split: if_splits)
  then show "\<exists>n. unique_id n = node_type_str self NodeType_Exposure @ ''.'' @ project_name self
                          @ ''.'' @ ue_name ue
         \<and> e_config n = ?c
         \<and> (if enabled ?c
            then added_enabled_only (manifest st) (manifest st_e) (ExposureNode n)
            else added_disabled_only (manifest st) (manifest st_e) (yaml_file self)
                   (ExposureNode n))"
    by (intro exI [of _ ?n]) simp
next
  assume ok: "parse_metric self st um = Inr st_m"
  let ?c = "rendered_metric_config self um"
  from ok obtain mt tp where
    mt: "MetricType_of (metric_types self) (um_type um) = Inr mt" and
    tp: "get_metric_type_params self (um_type_params um) = Inr tp"
    by (auto simp: parse_metric_cases Let_def split: if_splits sum.splits)
  have reg: "if enabled ?c
        then added_enabled_only (manifest st) (manifest st_m)
               (MetricNode (metric_node self um ?c (unrendered_metric_config self um) mt tp))
        else added_disabled_only (manifest st) (manifest st_m) (yaml_file self)
               (MetricNode (metric_node self um ?c (unrendered_metric_config self um) mt tp))"
    using ok mt tp add_metric_only [of "manifest st" "yaml_file self"]
      add_disabled_only [of "manifest st" "yaml_file self"]
    by (auto simp: parse_metric_cases Let_def split: if_splits)
  let ?n = "metric_node self um ?c (unrendered_metric_config self um) mt tp"
  from reg show "\<exists>n. unique_id n = node_type_str self NodeType_Metric @ ''.'' @ project_name self
                          @ ''.'' @ um_name um
         \<and> m_config n = ?c
         \<and> (if enabled ?c
            then added_enabled_only (manifest st) (manifest st_m) (MetricNode n)
            else added_disabled_only (manifest st) (manifest st_m) (yaml_file self)
                   (MetricNode n))"
    by (intro exI [of _ ?n]) simp
qed

theorem registration_by_enabled_flag_witness:
  "(\<exists>st' n. parse_exposure example_reader empty_state example_exposure = Inr st'
       \<and> enabled (rendered_exposure_config example_reader example_exposure)
       \<and> unique_id n = ''exposure.proj.weekly''
       \<and> added_enabled_only empty_manifest (manifest st') (ExposureNode n))
   \<and> (\<exists>st' n. parse_metric example_reader empty_state example_metric = Inr st'
       \<and> enabled (rendered_metric_config example_reader example_metric) = False
       \<and> unique_id n = ''metric.proj.ratio_metric''
       \<and> added_disabled_only empty_manifest (manifest st') ''proj://models/schema.yml''
            (MetricNode n))"
proof (intro conjI)
  obtain se where se: "parse_exposure example_reader empty_state example_exposure = Inr se"
    using example_exposure_parses by blast
  from registration_by_enabled_flag [THEN conjunct1, rule_format, OF se]
  obtain n where
    "unique_id n = node_type_str example_reader NodeType_Exposure @ ''.''
        @ project_name example_reader @ ''.'' @ ue_name example_exposure"
    "added_enabled_only (manifest empty_state) (manifest se) (ExposureNode n)"
    using example_exposure_enabled by auto
  then have "unique_id n = ''exposure.proj.weekly''"
    "added_enabled_only empty_manifest (manifest se) (ExposureNode n)"
    by (simp_all add: example_reader_def example_exposure_def empty_state_def)
  with se example_exposure_enabled
  show "\<exists>st' n. parse_exposure example_reader empty_state example_exposure = Inr st'
       \<and> enabled (rendered_exposure_config example_reader example_exposure)
       \<and> unique_id n = ''exposure.proj.weekly''
       \<and> added_enabled_only empty_manifest (manifest st') (ExposureNode n)"
    by blast
next
  obtain sm where sm: "parse_metric example_reader empty_state example_metric = Inr sm"
    using example_metric_parses by blast
  from registration_by_enabled_flag [THEN conjunct2, rule_format, OF sm]
  obtain n where
    "unique_id n = node_type_str example_reader NodeType_Metric @ ''.''
        @ project_name example_reader @ ''.'' @ um_name example_metric"
    "added_disabled_only (manifest empty_state) (manifest sm) (yaml_file example_reader)
       (MetricNode n)"
    using example_metric_disabled by auto
  then have "unique_id n = ''metric.proj.ratio_metric''"
    "added_disabled_only empty_manifest (manifest sm) ''proj://models/schema.yml'' (MetricNode n)"
    by (simp_all add: example_reader_def example_metric_def empty_state_def)
  with sm example_metric_disabled
  show "\<exists>st' n. parse_metric example_reader empty_state example_metric = Inr st'
       \<and> enabled (rendered_metric_config example_reader example_metric) = False
       \<and> unique_id n = ''metric.proj.ratio_metric''
       \<and> added_disabled_only empty_manifest (manifest st') ''proj://models/schema.yml''
            (MetricNode n)"
    by blast
qed




text \<open>
  Claim C7. When the finalised rendered config of an exposure declaration is not an
  \<open>ExposureConfig\<close>, or that of a metric declaration not a \<open>MetricConfig\<close>, parsing
  raises a \<open>DbtInternalError\<close> whose message names the class of the config; no state
  is returned, so nothing is registered.
\<close>

theorem mistyped_config_is_internal_error:
  "(config_class (rendered_exposure_config self ue) \<noteq> ExposureConfig \<longrightarrow>
      parse_exposure self st ue =
        Inl (DbtInternalError
              (''Calculated a '' @ class_repr (config_class (rendered_exposure_config self ue))
               @ '' for an exposure, but expected an ExposureConfig'')))
   \<and> (config_class (rendered_metric_config self um) \<noteq> MetricConfig \<longrightarrow>
      parse_metric self st um =
        Inl (DbtInternalError
              (''Calculated a '' @ class_repr (config_class (rendered_metric_config self um))
               @ '' for a metric, but expected a MetricConfig'')))"
  by (simp add: parse_exposure_cases parse_metric_cases Let_def)

theorem mistyped_config_is_internal_error_witness:
  "config_class (rendered_exposure_config mistyped_reader example_exposure) = OtherConfig ''NodeConfig''
   \<and> parse_exposure mistyped_reader empty_state example_exposure =
        Inl (DbtInternalError ''Calculated a NodeConfig for an exposure, but expected an ExposureConfig'')
   \<and> config_class (rendered_metric_config mistyped_reader example_metric) = OtherConfig ''NodeConfig''
   \<and> parse_metric mistyped_reader empty_state example_metric =
        Inl (DbtInternalError ''Calculated a NodeConfig for a metric, but expected a MetricConfig'')"
proof -
  have e: "config_class (rendered_exposure_config mistyped_reader example_exposure) = OtherConfig ''NodeConfig''"
    by (simp add: rendered_exposure_config_def mistyped_reader_def example_defs)
  have m: "config_class (rendered_metric_config mistyped_reader example_metric) = OtherConfig ''NodeConfig''"
    by (simp add: rendered_metric_config_def mistyped_reader_def example_defs)
  show ?thesis
    using mistyped_config_is_internal_error
      [of mistyped_reader example_exposure empty_state example_metric] e m
    by simp
qed

section \<open>Properties of the compile task\<close>

lemmas task_example_defs =
  example_base_def failing_base_def inline_task_def select_task_def plain_task_def
  orders_manifest_def orders_node_def inline_node_def orders_result_def execute_def
  empty_manifest_def add_enabled_def

text \<open>
  Where the initialisation of a run with an inline argument completes, so that
  \<open>parse_remote\<close> and \<open>process_node\<close> return and leave in the Manifest the keys it had
  and that of the inline node, which is new and not empty, the id of the node is
  recorded and \<open>after_run\<close> removes the node: the keys of the Manifest's nodes are then
  those it had before the initialisation, and the task has forgotten the id.
\<close>

theorem inline_node_removed_after_completed_initialize:
  assumes inl: "inline (args t) = Some sql" "sql \<noteq> []"
    and pr: "parse_remote base (task_manifest t) sql ''inline_query'' = (m1, Inr n)"
    and pn: "process_node base m1 n = (m2, None)"
    and injected: "dom (nodes m2) = insert (unique_id n) (dom (nodes (task_manifest t)))"
    and fresh: "unique_id n \<notin> dom (nodes (task_manifest t))" "unique_id n \<noteq> []"
  shows "\<exists>t1 t2. runtime_initialize base t = (t1, super_runtime_initialize base t1)
           \<and> inline_node_id t1 = Some (unique_id n)
           \<and> after_run base t1 results = (t2, super_after_run base t2 results)
           \<and> dom (nodes (task_manifest t2)) = dom (nodes (task_manifest t))
           \<and> inline_node_id t2 = None"
proof -
  let ?t1 = "t\<lparr>task_manifest := m2, inline_node_id := Some (unique_id n)\<rparr>"
  let ?t2 = "t\<lparr>task_manifest := m2\<lparr>nodes := (nodes m2)(unique_id n := None)\<rparr>,
               inline_node_id := None\<rparr>"
  have ri: "runtime_initialize base t = (?t1, super_runtime_initialize base ?t1)"
    using inl pr pn by (simp add: runtime_initialize_def truthy_def Let_def)
  have "unique_id n \<in> dom (nodes m2)" using injected by simp
  then obtain v where v: "nodes m2 (unique_id n) = Some v" by blast
  have ar: "after_run base ?t1 results = (?t2, super_after_run base ?t2 results)"
    using v fresh(2) by (simp add: after_run_def truthy_def Let_def)
  have d: "dom (nodes (task_manifest ?t2)) = dom (nodes (task_manifest t))"
    using injected fresh(1) by simp
  show ?thesis
    apply (rule exI [of _ ?t1])
    apply (rule exI [of _ ?t2])
    using ri ar d by simp
qed

theorem inline_node_removed_after_completed_initialize_witness:
  "\<exists>t1 t2. runtime_initialize example_base inline_task = (t1, None)
       \<and> ''sqloperation.proj.inline_query'' \<in> dom (nodes (task_manifest t1))
       \<and> after_run example_base t1 [] = (t2, None)
       \<and> dom (nodes (task_manifest t2)) = {''model.proj.orders''}
       \<and> dom (nodes (task_manifest inline_task)) = {''model.proj.orders''}
       \<and> inline_node_id t2 = None"
proof -
  have "\<exists>t1 t2. runtime_initialize example_base inline_task
                   = (t1, super_runtime_initialize example_base t1)
           \<and> inline_node_id t1 = Some (unique_id inline_node)
           \<and> after_run example_base t1 [] = (t2, super_after_run example_base t2 [])
           \<and> dom (nodes (task_manifest t2)) = dom (nodes (task_manifest inline_task))
           \<and> inline_node_id t2 = None"
    by (rule inline_node_removed_after_completed_initialize
          [where sql = "''select 1''"
             and ?m1.0 = "add_enabled orders_manifest (SqlNode inline_node)"
             and ?m2.0 = "add_enabled orders_manifest (SqlNode inline_node)"])
       (simp_all add: task_example_defs)
  then obtain t1 t2 where
    a: "runtime_initialize example_base inline_task = (t1, super_runtime_initialize example_base t1)"
    and b: "after_run example_base t1 [] = (t2, super_after_run example_base t2 [])"
    and c: "dom (nodes (task_manifest t2)) = dom (nodes (task_manifest inline_task))"
    and d: "inline_node_id t2 = None"
    by blast
  have n: "super_runtime_initialize example_base t1 = None"
    "super_after_run example_base t2 [] = None"
    by (simp_all add: example_base_def)
  have k: "dom (nodes (task_manifest inline_task)) = {''model.proj.orders''}"
    by (simp add: task_example_defs)
  have "fst (runtime_initialize example_base inline_task) = t1" using a by simp
  then have m: "''sqloperation.proj.inline_query'' \<in> dom (nodes (task_manifest t1))"
    by (auto simp: runtime_initialize_def truthy_def Let_def task_example_defs)
  from a b c d n k m show ?thesis by auto
qed

text \<open>
  Claim C5, at a run with an inline query for which \<open>parse_remote\<close> adds the inline
  node to the Manifest and \<open>process_node\<close> then raises a \<open>CompilationError\<close>. The
  initialisation fails with the \<open>DbtException\<close> of an unparsable inline query; the
  Manifest, which had no such key, now holds the inline node, and the task has recorded
  no id of it. So \<open>after_run\<close>, were it to run on this task, removes nothing: the node
  stays in the Manifest.
\<close>

theorem inline_node_left_after_failed_initialize:
  "snd (runtime_initialize failing_base inline_task) =
     Some (DbtException ''Error parsing inline query'')
   \<and> ''sqloperation.proj.inline_query'' \<notin> dom (nodes (task_manifest inline_task))
   \<and> dom (nodes (task_manifest (fst (runtime_initialize failing_base inline_task)))) =
       {''model.proj.orders'', ''sqloperation.proj.inline_query''}
   \<and> inline_node_id (fst (runtime_initialize failing_base inline_task)) = None
   \<and> after_run failing_base (fst (runtime_initialize failing_base inline_task)) [] =
       (fst (runtime_initialize failing_base inline_task), None)"
  by (auto simp: runtime_initialize_def after_run_def truthy_def Let_def task_example_defs)

text \<open>
  Claim C9. Let the handler of the base class leave the task \<open>t'\<close> without the result
  \<open>r\<close> of an ephemeral model among its results. Then \<open>_handle_result\<close> has \<open>r\<close> among the
  results exactly when the task is a \<open>CompileTask\<close> itself and its \<open>select\<close> or its
  \<open>inline\<close> argument is given and not empty; that the node was executed does not keep
  its result.
\<close>

theorem ephemeral_result_kept_only_when_selected:
  assumes "super_handle_result base t r = t'"
    and "is_ephemeral_model (node r)"
    and "r \<notin> set (node_results t')"
  shows "r \<in> set (node_results (handle_result base t r)) \<longleftrightarrow>
           self_class t' = CompileTask_class
           \<and> (truthy (select (args t')) \<or> truthy (inline (args t')))"
  using assms by (auto simp: handle_result_def Let_def)

theorem ephemeral_result_kept_only_when_selected_witness:
  "is_ephemeral_model (node orders_result)
   \<and> orders_result \<notin> set (node_results (super_handle_result example_base select_task orders_result))
   \<and> truthy (select (args select_task))
   \<and> orders_result \<in> set (node_results (handle_result example_base select_task orders_result))
   \<and> orders_result \<notin> set (node_results (super_handle_result example_base plain_task orders_result))
   \<and> truthy (select (args plain_task)) = False \<and> truthy (inline (args plain_task)) = False
   \<and> orders_result \<notin> set (node_results (handle_result example_base plain_task orders_result))"
proof -
  have s: "super_handle_result example_base select_task orders_result = select_task"
    and p: "super_handle_result example_base plain_task orders_result = plain_task"
    and e: "is_ephemeral_model (node orders_result)"
    by (simp_all add: example_base_def orders_result_def execute_def orders_node_def)
  have ns: "orders_result \<notin> set (node_results select_task)"
    and np: "orders_result \<notin> set (node_results plain_task)"
    by (simp_all add: select_task_def plain_task_def)
  have ts: "truthy (select (args select_task))"
    and tp: "truthy (select (args plain_task)) = False" "truthy (inline (args plain_task)) = False"
    and cs: "self_class select_task = CompileTask_class"
    by (simp_all add: select_task_def plain_task_def truthy_def)
  show ?thesis
    using ephemeral_result_kept_only_when_selected [OF s e ns]
      ephemeral_result_kept_only_when_selected [OF p e np]
      s p e ns np ts tp cs
    by simp
qed

section \<open>Properties of the Common-Identifiers rule\<close>

lemma reference_eq_iff [simp]: "reference i = reference j \<longleftrightarrow> ident_name i = ident_name j"
  by (simp add: reference_def)

lemma add_entity_identifier_apply:
  "add_entity_identifier d e i r =
     (if r = reference i
      then Some (insert (entity_name e) (case d r of None \<Rightarrow> {} | Some s \<Rightarrow> s))
      else d r)"
  by (simp add: add_entity_identifier_def split: option.splits)

lemma fold_identifiers_apply:
  "foldl (\<lambda>d' i. add_entity_identifier d' e i) d ids r =
     (if r \<in> reference ` set ids
      then Some (insert (entity_name e) (case d r of None \<Rightarrow> {} | Some s \<Rightarrow> s))
      else d r)"
proof (induction ids arbitrary: d)
  case Nil
  then show ?case by simp
next
  case (Cons i ids)
  have "foldl (\<lambda>d' i. add_entity_identifier d' e i) d (i # ids) r =
        foldl (\<lambda>d' i. add_entity_identifier d' e i) (add_entity_identifier d e i) ids r"
    by (simp only: foldl_Cons)
  also have "\<dots> =
     (if r \<in> reference ` set ids
      then Some (insert (entity_name e)
                   (case add_entity_identifier d e i r of None \<Rightarrow> {} | Some s \<Rightarrow> s))
      else add_entity_identifier d e i r)"
    by (rule Cons.IH)
  also have "\<dots> =
     (if r \<in> reference ` set (i # ids)
      then Some (insert (entity_name e) (case d r of None \<Rightarrow> {} | Some s \<Rightarrow> s))
      else d r)"
    by (auto simp: add_entity_identifier_apply)
  finally show ?case .
qed

lemma declaring_Nil [simp]: "declaring [] r = {}"
  by (simp add: declaring_def)

lemma declaring_Cons:
  "declaring (e # es) r =
     (if r \<in> reference ` set (or_empty (identifiers e))
      then insert (entity_name e) (declaring es r) else declaring es r)"
  by (auto simp: declaring_def)

lemma fold_entities_apply:
  "foldl (\<lambda>d e. foldl (\<lambda>d' i. add_entity_identifier d' e i) d (or_empty (identifiers e)))
         d es r =
     (if declaring es r = {} then d r
      else Some ((case d r of None \<Rightarrow> {} | Some s \<Rightarrow> s) \<union> declaring es r))"
proof (induction es arbitrary: d)
  case Nil
  then show ?case by simp
next
  case (Cons e es)
  let ?inner = "\<lambda>d e. foldl (\<lambda>d' i. add_entity_identifier d' e i) d (or_empty (identifiers e))"
  have "foldl ?inner d (e # es) r = foldl ?inner (?inner d e) es r"
    by (simp only: foldl_Cons)
  also have "\<dots> =
     (if declaring es r = {} then ?inner d e r
      else Some ((case ?inner d e r of None \<Rightarrow> {} | Some s \<Rightarrow> s) \<union> declaring es r))"
    by (rule Cons.IH)
  also have "\<dots> =
     (if declaring (e # es) r = {} then d r
      else Some ((case d r of None \<Rightarrow> {} | Some s \<Rightarrow> s) \<union> declaring (e # es) r))"
    by (auto simp: fold_identifiers_apply declaring_Cons)
  finally show ?case .
qed

lemma map_entity_identifiers_apply:
  "map_entity_identifiers ents r =
     (if declaring (or_empty ents) r = {} then None else Some (declaring (or_empty ents) r))"
  by (simp add: map_entity_identifiers_def fold_entities_apply)

lemma foldl_append_concat:
  "foldl (\<lambda>acc x. acc @ f x) a xs = a @ concat (map f xs)"
  by (induction xs arbitrary: a) simp_all

lemma foldl_nested_concat:
  "foldl (\<lambda>acc e. foldl (\<lambda>acc' i. acc' @ g i e) acc (h e)) a es =
     a @ concat (map (\<lambda>e. concat (map (\<lambda>i. g i e) (h e))) es)"
  by (induction es arbitrary: a) (simp_all add: foldl_append_concat)

lemma validate_model_concat:
  "validate_model model =
     concat (map (\<lambda>e. concat (map (\<lambda>i. check_identifier i e
                                      (map_entity_identifiers (entities model)))
                               (or_empty (identifiers e))))
                 (or_empty (entities model)))"
  by (simp add: validate_model_def Let_def foldl_nested_concat)

lemma check_identifier_other_element:
  "ident_name j \<noteq> x \<Longrightarrow> filter (\<lambda>w. issue_element w = x) (check_identifier j e d) = []"
  by (simp add: check_identifier_def split: option.splits)

lemma filter_concat_map_empty:
  "(\<And>y. y \<in> set ys \<Longrightarrow> filter P (f y) = []) \<Longrightarrow> filter P (concat (map f ys)) = []"
  by (induction ys) simp_all

lemma declaring_mem:
  "e \<in> set es \<Longrightarrow> i \<in> set (or_empty (identifiers e)) \<Longrightarrow>
     entity_name e \<in> declaring es (reference i)"
  by (auto simp: declaring_def)

text \<open>The warning of the rule for an identifier on an entity.\<close>

lemma check_identifier_shared:
  assumes "a \<in> set es" and "i \<in> set (or_empty (identifiers a))"
    and "b \<in> set es" and "j \<in> set (or_empty (identifiers b))"
    and "ident_name i = ident_name k" and "ident_name j = ident_name k"
    and "entity_name a \<noteq> entity_name b"
  shows "check_identifier k e (map_entity_identifiers (Some es)) = []"
proof -
  have ri: "reference i = reference k" and rj: "reference j = reference k"
    using assms(5,6) by simp_all
  have ma: "entity_name a \<in> declaring es (reference k)"
    using declaring_mem [OF assms(1,2)] ri by simp
  have mb: "entity_name b \<in> declaring es (reference k)"
    using declaring_mem [OF assms(3,4)] rj by simp
  have "declaring es (reference k) - {entity_name e} \<noteq> {}"
  proof
    assume "declaring es (reference k) - {entity_name e} = {}"
    then have sub: "declaring es (reference k) \<subseteq> {entity_name e}" by blast
    from ma sub have "entity_name a = entity_name e" by blast
    moreover from mb sub have "entity_name b = entity_name e" by blast
    ultimately show False using assms(7) by simp
  qed
  moreover have "declaring es (reference k) \<noteq> {}" using ma by auto
  ultimately show ?thesis
    by (simp add: check_identifier_def map_entity_identifiers_apply or_empty_def)
qed

lemma check_identifier_alone:
  assumes "declaring es (reference i) = {entity_name a}"
  shows "check_identifier i a (map_entity_identifiers (Some es)) =
           [ValidationWarning
              (EntityElementContext (EntityElementReference (entity_name a) (ident_name i))
                 IDENTIFIER)
              (''Identifier '' @ [CHR 0x60] @ ident_name i @ [CHR 0x60]
               @ '' only found in one entity '' @ [CHR 0x60] @ entity_name a @ [CHR 0x60]
               @ '' which means it will be unused in joins.'')]"
  using assms
  by (simp add: check_identifier_def map_entity_identifiers_apply or_empty_def reference_def)

lemma declaring_alone:
  assumes "\<forall>e \<in> set pre \<union> set post. \<forall>j \<in> set (or_empty (identifiers e)).
             ident_name j \<noteq> ident_name i"
    and "i \<in> set (or_empty (identifiers a))"
  shows "declaring (pre @ a # post) (reference i) = {entity_name a}"
proof -
  have "e \<in> set (pre @ a # post) \<and> reference i \<in> reference ` set (or_empty (identifiers e))
          \<longleftrightarrow> e = a" for e
  proof
    assume h: "e \<in> set (pre @ a # post) \<and>
               reference i \<in> reference ` set (or_empty (identifiers e))"
    then obtain j where j: "j \<in> set (or_empty (identifiers e))" "reference i = reference j"
      by blast
    then have same: "ident_name j = ident_name i" by (simp add: reference_def)
    show "e = a"
    proof (rule ccontr)
      assume "e \<noteq> a"
      with h have "e \<in> set pre \<union> set post" by auto
      with assms(1) j(1) have "ident_name j \<noteq> ident_name i" by blast
      with same show False by simp
    qed
  next
    assume "e = a"
    with assms(2) show "e \<in> set (pre @ a # post) \<and>
               reference i \<in> reference ` set (or_empty (identifiers e))"
      by simp
  qed
  then have "{e \<in> set (pre @ a # post).
               reference i \<in> reference ` set (or_empty (identifiers e))} = {a}"
    by blast
  then show ?thesis by (simp add: declaring_def)
qed

lemma only_on_one_entity:
  assumes ents: "entities model = Some (pre @ a # post)"
    and ids: "identifiers a = Some (ipre @ i # ipost)"
    and others: "\<forall>e \<in> set pre \<union> set post. \<forall>j \<in> set (or_empty (identifiers e)).
                   ident_name j \<noteq> ident_name i"
    and once: "\<forall>j \<in> set ipre \<union> set ipost. ident_name j \<noteq> ident_name i"
  shows "filter (\<lambda>w. issue_element w = ident_name i) (validate_model model) =
           [ValidationWarning
              (EntityElementContext (EntityElementReference (entity_name a) (ident_name i))
                 IDENTIFIER)
              (''Identifier '' @ [CHR 0x60] @ ident_name i @ [CHR 0x60]
               @ '' only found in one entity '' @ [CHR 0x60] @ entity_name a @ [CHR 0x60]
               @ '' which means it will be unused in joins.'')]"
proof -
  let ?d = "map_entity_identifiers (Some (pre @ a # post))"
  let ?P = "\<lambda>w. issue_element w = ident_name i"
  let ?row = "\<lambda>e. concat (map (\<lambda>k. check_identifier k e ?d) (or_empty (identifiers e)))"
  have other: "filter ?P (?row e) = []" if "e \<in> set pre \<union> set post" for e
    unfolding filter_concat
    using others that
    by (intro filter_concat_map_empty [unfolded filter_concat] check_identifier_other_element)
       blast
  have pre: "filter ?P (concat (map ?row pre)) = []"
    by (rule filter_concat_map_empty) (use other in blast)
  have post: "filter ?P (concat (map ?row post)) = []"
    by (rule filter_concat_map_empty) (use other in blast)
  have ipre: "filter ?P (concat (map (\<lambda>k. check_identifier k a ?d) ipre)) = []"
    by (rule filter_concat_map_empty, rule check_identifier_other_element) (use once in blast)
  have ipost: "filter ?P (concat (map (\<lambda>k. check_identifier k a ?d) ipost)) = []"
    by (rule filter_concat_map_empty, rule check_identifier_other_element) (use once in blast)
  have mem: "i \<in> set (or_empty (identifiers a))"
    by (simp add: ids or_empty_def)
  have own: "check_identifier i a ?d =
           [ValidationWarning
              (EntityElementContext (EntityElementReference (entity_name a) (ident_name i))
                 IDENTIFIER)
              (''Identifier '' @ [CHR 0x60] @ ident_name i @ [CHR 0x60]
               @ '' only found in one entity '' @ [CHR 0x60] @ entity_name a @ [CHR 0x60]
               @ '' which means it will be unused in joins.'')]"
    by (rule check_identifier_alone [OF declaring_alone [OF others mem]])
  have rowa: "filter ?P (?row a) = check_identifier i a ?d"
    using ipre ipost by (simp add: ids or_empty_def own)
  have "filter ?P (validate_model model) =
          filter ?P (concat (map ?row pre)) @ filter ?P (?row a)
          @ filter ?P (concat (map ?row post))"
    by (simp add: validate_model_concat ents or_empty_def)
  then show ?thesis
    by (simp only: pre post rowa own append_Nil append_Nil2)
qed

lemma on_two_entities:
  assumes ents: "entities model = Some es"
    and a: "a \<in> set es" "i \<in> set (or_empty (identifiers a))" "ident_name i = x"
    and b: "b \<in> set es" "j \<in> set (or_empty (identifiers b))" "ident_name j = x"
    and distinct: "entity_name a \<noteq> entity_name b"
  shows "filter (\<lambda>w. issue_element w = x) (validate_model model) = []"
proof -
  let ?d = "map_entity_identifiers (Some es)"
  have one: "filter (\<lambda>w. issue_element w = x) (check_identifier k e ?d) = []" for k e
  proof (cases "ident_name k = x")
    case True
    have "check_identifier k e ?d = []"
      by (rule check_identifier_shared [OF a(1,2) b(1,2) _ _ distinct])
         (simp_all add: a(3) b(3) True)
    then show ?thesis by simp
  next
    case False
    then show ?thesis by (rule check_identifier_other_element)
  qed
  show ?thesis
    unfolding validate_model_concat ents
    by (intro filter_concat_map_empty one)
qed

lemma example_issues:
  "validate_model example_model =
     [ValidationWarning
        (EntityElementContext (EntityElementReference ''A'' ''foo'') IDENTIFIER)
        ''Identifier `foo` only found in one entity `A` which means it will be unused in joins.'']"
  by (simp add: validate_model_def map_entity_identifiers_def add_entity_identifier_def
      check_identifier_def reference_def or_empty_def example_model_def entity_A_def
      entity_B_def Let_def)

lemma check_identifier_element:
  "w \<in> set (check_identifier k e d) \<Longrightarrow> issue_element w = ident_name k"
  by (auto simp: check_identifier_def split: option.splits if_splits)

lemma filter_checks_replicate:
  assumes "\<And>k. k \<in> set ks \<Longrightarrow> ident_name k = x \<Longrightarrow> check_identifier k a d = [w]"
    and "issue_element w = x"
  shows "filter (\<lambda>v. issue_element v = x) (concat (map (\<lambda>k. check_identifier k a d) ks)) =
           replicate (length (filter (\<lambda>k. ident_name k = x) ks)) w"
  using assms(1)
proof (induction ks)
  case Nil
  then show ?case by simp
next
  case (Cons k ks)
  have rest: "filter (\<lambda>v. issue_element v = x) (concat (map (\<lambda>k. check_identifier k a d) ks)) =
           replicate (length (filter (\<lambda>k. ident_name k = x) ks)) w"
    by (rule Cons.IH) (simp add: Cons.prems)
  show ?case
  proof (cases "ident_name k = x")
    case True
    then have "check_identifier k a d = [w]" by (intro Cons.prems) simp_all
    with True rest assms(2) show ?thesis by simp
  next
    case False
    then have "filter (\<lambda>v. issue_element v = x) (check_identifier k a d) = []"
      by (rule check_identifier_other_element)
    with False rest show ?thesis by simp
  qed
qed

lemma one_warning_per_declaration:
  assumes ents: "entities model = Some (pre @ a # post)"
    and others: "\<forall>e \<in> set pre \<union> set post. \<forall>j \<in> set (or_empty (identifiers e)).
                   ident_name j \<noteq> x"
  shows "filter (\<lambda>w. issue_element w = x) (validate_model model) =
           replicate (length (filter (\<lambda>j. ident_name j = x) (or_empty (identifiers a))))
             (ValidationWarning
                (EntityElementContext (EntityElementReference (entity_name a) x) IDENTIFIER)
                (''Identifier '' @ [CHR 0x60] @ x @ [CHR 0x60]
                 @ '' only found in one entity '' @ [CHR 0x60] @ entity_name a @ [CHR 0x60]
                 @ '' which means it will be unused in joins.''))"
proof -
  let ?d = "map_entity_identifiers (Some (pre @ a # post))"
  let ?P = "\<lambda>w. issue_element w = x"
  let ?row = "\<lambda>e. concat (map (\<lambda>k. check_identifier k e ?d) (or_empty (identifiers e)))"
  let ?w = "ValidationWarning
                (EntityElementContext (EntityElementReference (entity_name a) x) IDENTIFIER)
                (''Identifier '' @ [CHR 0x60] @ x @ [CHR 0x60]
                 @ '' only found in one entity '' @ [CHR 0x60] @ entity_name a @ [CHR 0x60]
                 @ '' which means it will be unused in joins.'')"
  have other: "filter ?P (?row e) = []" if "e \<in> set pre \<union> set post" for e
    using others that
    by (intro filter_concat_map_empty check_identifier_other_element) blast
  have pre: "filter ?P (concat (map ?row pre)) = []"
    by (rule filter_concat_map_empty) (use other in blast)
  have post: "filter ?P (concat (map ?row post)) = []"
    by (rule filter_concat_map_empty) (use other in blast)
  have own: "check_identifier k a ?d = [?w]"
    if "k \<in> set (or_empty (identifiers a))" and "ident_name k = x" for k
  proof -
    have "\<forall>e \<in> set pre \<union> set post. \<forall>j \<in> set (or_empty (identifiers e)).
            ident_name j \<noteq> ident_name k"
      using others that(2) by simp
    from check_identifier_alone [OF declaring_alone [OF this that(1)]] that(2)
    show ?thesis by simp
  qed
  have rowa: "filter ?P (?row a) =
      replicate (length (filter (\<lambda>j. ident_name j = x) (or_empty (identifiers a)))) ?w"
    by (rule filter_checks_replicate) (simp_all add: own)
  have "filter ?P (validate_model model) =
          filter ?P (concat (map ?row pre)) @ filter ?P (?row a)
          @ filter ?P (concat (map ?row post))"
    by (simp add: validate_model_concat ents or_empty_def)
  then show ?thesis
    by (simp only: pre post rowa append_Nil append_Nil2)
qed

text \<open>
  Claim C6, as the claim states it, fails for a model whose only entity \<open>A\<close> declares
  the identifier \<open>foo\<close> twice: \<open>foo\<close> is declared only on \<open>A\<close>, and the rule, which checks
  every declaration, emits two warnings that reference \<open>A\<close> and \<open>foo\<close>.
\<close>

theorem declared_twice_on_one_entity:
  "filter (\<lambda>w. issue_entity w = ''A'' \<and> issue_element w = ''foo'') (validate_model twice_model) =
     [ValidationWarning
        (EntityElementContext (EntityElementReference ''A'' ''foo'') IDENTIFIER)
        (''Identifier '' @ [CHR 0x60] @ ''foo'' @ [CHR 0x60]
         @ '' only found in one entity '' @ [CHR 0x60] @ ''A'' @ [CHR 0x60]
         @ '' which means it will be unused in joins.''),
      ValidationWarning
        (EntityElementContext (EntityElementReference ''A'' ''foo'') IDENTIFIER)
        (''Identifier '' @ [CHR 0x60] @ ''foo'' @ [CHR 0x60]
         @ '' only found in one entity '' @ [CHR 0x60] @ ''A'' @ [CHR 0x60]
         @ '' which means it will be unused in joins.'')]"
  by (simp add: validate_model_def map_entity_identifiers_def add_entity_identifier_def
      check_identifier_def reference_def or_empty_def twice_model_def Let_def)

text \<open>
  Claim C6, amended. An issue references the entity and the identifier its context
  names. When an identifier is declared exactly once on the entity \<open>a\<close> and on no other
  entity of the model, the issues that reference the identifier are exactly one: the
  warning for it on \<open>a\<close>. In general, when no entity but \<open>a\<close> declares an identifier,
  the issues that reference it are one such warning for each of its declarations on
  \<open>a\<close>. When an identifier is declared on two entities of different names, no issue
  references it.
\<close>

theorem common_identifiers_warning:
  "(entities model = Some (pre @ a # post)
      \<and> identifiers a = Some (ipre @ i # ipost)
      \<and> (\<forall>e \<in> set pre \<union> set post. \<forall>j \<in> set (or_empty (identifiers e)).
            ident_name j \<noteq> ident_name i)
      \<and> (\<forall>j \<in> set ipre \<union> set ipost. ident_name j \<noteq> ident_name i) \<longrightarrow>
      filter (\<lambda>w. issue_element w = ident_name i) (validate_model model) =
        [ValidationWarning
           (EntityElementContext (EntityElementReference (entity_name a) (ident_name i))
              IDENTIFIER)
           (''Identifier '' @ [CHR 0x60] @ ident_name i @ [CHR 0x60]
            @ '' only found in one entity '' @ [CHR 0x60] @ entity_name a @ [CHR 0x60]
            @ '' which means it will be unused in joins.'')])
   \<and> (entities model = Some (pre @ a # post)
      \<and> (\<forall>e \<in> set pre \<union> set post. \<forall>j \<in> set (or_empty (identifiers e)).
            ident_name j \<noteq> x) \<longrightarrow>
      filter (\<lambda>w. issue_element w = x) (validate_model model) =
        replicate (length (filter (\<lambda>j. ident_name j = x) (or_empty (identifiers a))))
          (ValidationWarning
             (EntityElementContext (EntityElementReference (entity_name a) x) IDENTIFIER)
             (''Identifier '' @ [CHR 0x60] @ x @ [CHR 0x60]
              @ '' only found in one entity '' @ [CHR 0x60] @ entity_name a @ [CHR 0x60]
              @ '' which means it will be unused in joins.'')))
   \<and> (entities model = Some es
      \<and> e1 \<in> set es \<and> i1 \<in> set (or_empty (identifiers e1))
      \<and> e2 \<in> set es \<and> i2 \<in> set (or_empty (identifiers e2))
      \<and> ident_name i1 = ident_name i2 \<and> entity_name e1 \<noteq> entity_name e2 \<longrightarrow>
      filter (\<lambda>w. issue_element w = ident_name i1) (validate_model model) = [])"
proof (intro conjI impI)
  assume "entities model = Some (pre @ a # post)
      \<and> identifiers a = Some (ipre @ i # ipost)
      \<and> (\<forall>e \<in> set pre \<union> set post. \<forall>j \<in> set (or_empty (identifiers e)).
            ident_name j \<noteq> ident_name i)
      \<and> (\<forall>j \<in> set ipre \<union> set ipost. ident_name j \<noteq> ident_name i)"
  then show "filter (\<lambda>w. issue_element w = ident_name i) (validate_model model) =
        [ValidationWarning
           (EntityElementContext (EntityElementReference (entity_name a) (ident_name i))
              IDENTIFIER)
           (''Identifier '' @ [CHR 0x60] @ ident_name i @ [CHR 0x60]
            @ '' only found in one entity '' @ [CHR 0x60] @ entity_name a @ [CHR 0x60]
            @ '' which means it will be unused in joins.'')]"
    by (elim conjE) (rule only_on_one_entity)
next
  assume "entities model = Some (pre @ a # post)
      \<and> (\<forall>e \<in> set pre \<union> set post. \<forall>j \<in> set (or_empty (identifiers e)).
            ident_name j \<noteq> x)"
  then show "filter (\<lambda>w. issue_element w = x) (validate_model model) =
        replicate (length (filter (\<lambda>j. ident_name j = x) (or_empty (identifiers a))))
          (ValidationWarning
             (EntityElementContext (EntityElementReference (entity_name a) x) IDENTIFIER)
             (''Identifier '' @ [CHR 0x60] @ x @ [CHR 0x60]
              @ '' only found in one entity '' @ [CHR 0x60] @ entity_name a @ [CHR 0x60]
              @ '' which means it will be unused in joins.''))"
    by (elim conjE) (rule one_warning_per_declaration)
next
  assume "entities model = Some es
      \<and> e1 \<in> set es \<and> i1 \<in> set (or_empty (identifiers e1))
      \<and> e2 \<in> set es \<and> i2 \<in> set (or_empty (identifiers e2))
      \<and> ident_name i1 = ident_name i2 \<and> entity_name e1 \<noteq> entity_name e2"
  then show "filter (\<lambda>w. issue_element w = ident_name i1) (validate_model model) = []"
    by (elim conjE) (rule on_two_entities [where a = e1 and i = i1 and b = e2 and j = i2],
        simp_all)
qed

theorem common_identifiers_warning_witness:
  "filter (\<lambda>w. issue_element w = ''foo'') (validate_model example_model) =
     [ValidationWarning
        (EntityElementContext (EntityElementReference ''A'' ''foo'') IDENTIFIER)
        (''Identifier '' @ [CHR 0x60] @ ''foo'' @ [CHR 0x60]
         @ '' only found in one entity '' @ [CHR 0x60] @ ''A'' @ [CHR 0x60]
         @ '' which means it will be unused in joins.'')]
   \<and> filter (\<lambda>w. issue_element w = ''foo'') (validate_model twice_model) =
     replicate 2
       (ValidationWarning
          (EntityElementContext (EntityElementReference ''A'' ''foo'') IDENTIFIER)
          (''Identifier '' @ [CHR 0x60] @ ''foo'' @ [CHR 0x60]
           @ '' only found in one entity '' @ [CHR 0x60] @ ''A'' @ [CHR 0x60]
           @ '' which means it will be unused in joins.''))
   \<and> filter (\<lambda>w. issue_element w = ''user'') (validate_model example_model) = []"
proof (intro conjI)
  show "filter (\<lambda>w. issue_element w = ''foo'') (validate_model example_model) =
     [ValidationWarning
        (EntityElementContext (EntityElementReference ''A'' ''foo'') IDENTIFIER)
        (''Identifier '' @ [CHR 0x60] @ ''foo'' @ [CHR 0x60]
         @ '' only found in one entity '' @ [CHR 0x60] @ ''A'' @ [CHR 0x60]
         @ '' which means it will be unused in joins.'')]"
    using common_identifiers_warning
      [of example_model "[]" entity_A "[entity_B]" "[]" "\<lparr>ident_name = ''foo''\<rparr>"
          "[\<lparr>ident_name = ''user''\<rparr>]", THEN conjunct1]
    by (simp add: example_model_def entity_A_def entity_B_def or_empty_def)
  show "filter (\<lambda>w. issue_element w = ''foo'') (validate_model twice_model) =
     replicate 2
       (ValidationWarning
          (EntityElementContext (EntityElementReference ''A'' ''foo'') IDENTIFIER)
          (''Identifier '' @ [CHR 0x60] @ ''foo'' @ [CHR 0x60]
           @ '' only found in one entity '' @ [CHR 0x60] @ ''A'' @ [CHR 0x60]
           @ '' which means it will be unused in joins.''))"
    using common_identifiers_warning
      [where model = twice_model and pre = "[]" and post = "[]" and x = "''foo''"
         and a = "\<lparr>entity_name = ''A'',
                    identifiers = Some [\<lparr>ident_name = ''foo''\<rparr>, \<lparr>ident_name = ''foo''\<rparr>]\<rparr>",
         THEN conjunct2, THEN conjunct1]
    by (simp add: twice_model_def or_empty_def numeral_2_eq_2)
  show "filter (\<lambda>w. issue_element w = ''user'') (validate_model example_model) = []"
    using common_identifiers_warning
      [where model = example_model and es = "[entity_A, entity_B]" and ?e1.0 = entity_A
         and ?i1.0 = "\<lparr>ident_name = ''user''\<rparr>" and ?e2.0 = entity_B
         and ?i2.0 = "\<lparr>ident_name = ''user''\<rparr>", THEN conjunct2, THEN conjunct2]
    by (simp add: example_model_def entity_A_def entity_B_def or_empty_def)
qed

end
